theory Spec2Isabelle
  imports Main "HOL-Library.Sublist"
begin

section \<open>Strings as the chatbot uses them\<close>

text \<open>
  A Python \<open>str\<close> is modelled as a \<open>string\<close> of ASCII characters. \<open>str.lower\<close> and
  \<open>str.upper\<close> map the 26 ASCII letters and leave every other character alone; the
  character classes of the regular expressions (\<open>\s\<close>, \<open>\d\<close>, \<open>\w\<close>) are the ASCII
  parts of Python's classes. Text outside ASCII is outside this model.
\<close>

definition lower_char :: "char \<Rightarrow> char" where
  "lower_char c =
     (let n = (of_char c :: nat) in if 65 \<le> n \<and> n \<le> 90 then char_of (n + 32) else c)"

definition upper_char :: "char \<Rightarrow> char" where
  "upper_char c =
     (let n = (of_char c :: nat) in if 97 \<le> n \<and> n \<le> 122 then char_of (n - 32) else c)"

definition str_lower :: "string \<Rightarrow> string" where
  "str_lower s = map lower_char s"

definition str_upper :: "string \<Rightarrow> string" where
  "str_upper s = map upper_char s"

text \<open>Python's \<open>needle in haystack\<close> on strings: contiguous containment.\<close>

fun py_in :: "string \<Rightarrow> string \<Rightarrow> bool" where
  "py_in xs [] = (xs = [])"
| "py_in xs (y # ys) = (prefix xs (y # ys) \<or> py_in xs ys)"

text \<open>\<open>any(k in text for k in ks)\<close>.\<close>

definition any_in :: "string list \<Rightarrow> string \<Rightarrow> bool" where
  "any_in ks text = list_ex (\<lambda>k. py_in k text) ks"

section \<open>Entities and intents\<close>

text \<open>
  The entity bundle is the dict literal that \<open>extract_entities\<close> returns: keys in the
  order written, each value a string or \<open>None\<close>. \<open>entities.get(k)\<close> is \<open>None\<close> for a
  missing key, and Python's truth test on the result fails for \<open>None\<close> and for \<open>""\<close>.
\<close>

type_synonym entities = "(string \<times> string option) list"

definition dict_get :: "entities \<Rightarrow> string \<Rightarrow> string option" where
  "dict_get d k = (case map_of d k of Some v \<Rightarrow> v | None \<Rightarrow> None)"

fun truthy :: "string option \<Rightarrow> bool" where
  "truthy None = False"
| "truthy (Some s) = (s \<noteq> [])"

datatype intent =
    Help | Graph_show
  | Course_teacher | Course_title | Course_credit | Course_semester | Course_info
  | Teacher_courses | Dept_courses | Semester_courses
  | Unknown

fun intent_name :: "intent \<Rightarrow> string" where
  "intent_name Help = ''help''"
| "intent_name Graph_show = ''graph_show''"
| "intent_name Course_teacher = ''course_teacher''"
| "intent_name Course_title = ''course_title''"
| "intent_name Course_credit = ''course_credit''"
| "intent_name Course_semester = ''course_semester''"
| "intent_name Course_info = ''course_info''"
| "intent_name Teacher_courses = ''teacher_courses''"
| "intent_name Dept_courses = ''dept_courses''"
| "intent_name Semester_courses = ''semester_courses''"
| "intent_name Unknown = ''unknown''"

definition detect_intent :: "string \<Rightarrow> entities \<Rightarrow> intent" where
  "detect_intent text entities =
     (let text_lower = str_lower text in
      if any_in [''help'', ''commands'', ''what can you do''] text_lower then Help
      else if py_in ''graph'' text_lower \<or> py_in ''kg'' text_lower then Graph_show
      else if truthy (dict_get entities ''course_code'') then
        (if any_in [''teacher'', ''teach'', ''teaches'', ''instructor''] text_lower
           then Course_teacher
         else if any_in [''title'', ''name''] text_lower then Course_title
         else if any_in [''credit'', ''credits''] text_lower then Course_credit
         else if any_in [''semester'', ''term''] text_lower then Course_semester
         else Course_info)
      else if truthy (dict_get entities ''teacher'')
              \<and> any_in [''courses'', ''teach'', ''teaches''] text_lower
        then Teacher_courses
      else if truthy (dict_get entities ''dept'')
              \<and> any_in [''department'', ''dept'', ''courses''] text_lower
        then Dept_courses
      else if truthy (dict_get entities ''semester'')
              \<and> any_in [''courses'', ''offered''] text_lower
        then Semester_courses
      else Unknown)"

section \<open>The catalog and the chatbot object\<close>

text \<open>
  A course record is one object of \<open>data/courses.json\<close>: the six keys the code reads.
  The credit is taken to be an integer; \<open>str_int\<close> is Python's rendering of it.
\<close>

record course_record =
  course :: string
  title :: string
  teacher :: string
  dept :: string
  semester :: string
  credit :: int

text \<open>
  The Graph Index as the chatbot calls it: each method returns its pair and changes the
  world \<open>'w\<close> behind the collaborator (the database, the driver's connection).
\<close>

record kg_row =
  code :: string
  row_title :: string

record kg_summary =
  nodes :: int
  edges :: int

record 'w kg_client =
  health :: "'w \<Rightarrow> (bool \<times> string option) \<times> 'w"
  upsert_course :: "course_record \<Rightarrow> 'w \<Rightarrow> (bool \<times> string option) \<times> 'w"
  summary :: "'w \<Rightarrow> (kg_summary option \<times> string option) \<times> 'w"
  get_courses_by_teacher :: "string \<Rightarrow> 'w \<Rightarrow> (kg_row list \<times> string option) \<times> 'w"
  get_courses_by_dept :: "string \<Rightarrow> 'w \<Rightarrow> (kg_row list \<times> string option) \<times> 'w"
  get_courses_by_semester :: "string \<Rightarrow> 'w \<Rightarrow> (kg_row list \<times> string option) \<times> 'w"

record 'w chatbot =
  data :: "course_record list"
  kg :: "'w kg_client option"
  by_code :: "string \<rightharpoonup> course_record"
  teacher_names :: "string list"
  dept_names :: "string list"
  semester_names :: "string list"
  dept_re :: "string list option"

text \<open>
  \<open>{c["course"].upper(): c for c in data}\<close>: a later record replaces an earlier one
  with the same uppercased code.
\<close>

definition by_code_of :: "course_record list \<Rightarrow> (string \<rightharpoonup> course_record)" where
  "by_code_of cs = foldl (\<lambda>m c. m(str_upper (course c) \<mapsto> c)) Map.empty cs"

text \<open>
  \<open>sorted({...}, key=len, reverse=True)\<close>. The order in which Python iterates over the
  set is not fixed by the language, so it is a parameter \<open>iter\<close> that turns the
  comprehension's values into the iteration sequence of the set; \<open>set_order iter\<close> says
  that it lists every value once. The sort is stable, also with \<open>reverse=True\<close>: names of
  equal length stay in iteration order.
\<close>

definition set_order :: "(string list \<Rightarrow> string list) \<Rightarrow> bool" where
  "set_order iter = (\<forall>xs. distinct (iter xs) \<and> set (iter xs) = set xs)"

definition sorted_by_len_desc :: "string list \<Rightarrow> string list" where
  "sorted_by_len_desc xs = sort_key (\<lambda>s. - int (length s)) xs"

text \<open>
  The compiled department pattern \<open>\b(n1|n2|...)\b\<close> is kept as the list of its
  alternatives, each a literal after \<open>re.escape\<close>. The joined pattern string is empty, so
  that no pattern is compiled, when there is no name or the only name is empty.
\<close>

definition chatbot_init ::
  "(string list \<Rightarrow> string list) \<Rightarrow> course_record list \<Rightarrow> 'w kg_client option \<Rightarrow> 'w chatbot"
where
  "chatbot_init iter cs g =
     (let tn = sorted_by_len_desc (iter (map teacher cs));
          dn = sorted_by_len_desc (iter (map dept cs));
          sn = sorted_by_len_desc (iter (map semester cs))
      in \<lparr> data = cs, kg = g, by_code = by_code_of cs,
           teacher_names = tn, dept_names = dn, semester_names = sn,
           dept_re = (if dn = [] \<or> dn = [[]] then None else Some dn) \<rparr>)"

section \<open>The entity extractor\<close>

definition is_digit :: "char \<Rightarrow> bool" where
  "is_digit c = (let n = (of_char c :: nat) in 48 \<le> n \<and> n \<le> 57)"

definition is_AZ :: "char \<Rightarrow> bool" where
  "is_AZ c = (let n = (of_char c :: nat) in 65 \<le> n \<and> n \<le> 90)"

definition is_alpha :: "char \<Rightarrow> bool" where
  "is_alpha c = (let n = (of_char c :: nat) in (65 \<le> n \<and> n \<le> 90) \<or> (97 \<le> n \<and> n \<le> 122))"

text \<open>
  The character classes below are Python's on ASCII text, which \<open>is_ascii\<close> tells;
  outside ASCII Python has further whitespace and word characters, and its \<open>upper\<close>
  and \<open>lower\<close> change further letters.
\<close>

definition is_ascii :: "string \<Rightarrow> bool" where
  "is_ascii s = list_all (\<lambda>c. (of_char c :: nat) < 128) s"

text \<open>\<open>\s\<close> and \<open>str.split\<close>: tab to carriage return, the four separators 28 to 31, space.\<close>

definition is_space :: "char \<Rightarrow> bool" where
  "is_space c = (let n = (of_char c :: nat) in (9 \<le> n \<and> n \<le> 13) \<or> (28 \<le> n \<and> n \<le> 32))"

definition is_word :: "char \<Rightarrow> bool" where
  "is_word c = (is_alpha c \<or> is_digit c \<or> c = CHR ''_'')"

text \<open>\<open>\b\<close> between the character before a position and the character at it.\<close>

fun word_at :: "char option \<Rightarrow> bool" where
  "word_at None = False"
| "word_at (Some c) = is_word c"

definition word_boundary :: "char option \<Rightarrow> char option \<Rightarrow> bool" where
  "word_boundary prev nxt = (word_at prev \<noteq> word_at nxt)"

fun first_char :: "string \<Rightarrow> char option" where
  "first_char [] = None"
| "first_char (c # cs) = Some c"

text \<open>\<open>(\d{3})\b\<close> at the start of a string.\<close>

fun digits3 :: "string \<Rightarrow> string option" where
  "digits3 (a # b # c # rest) =
     (if is_digit a \<and> is_digit b \<and> is_digit c \<and> word_boundary (Some c) (first_char rest)
      then Some [a, b, c] else None)"
| "digits3 _ = None"

text \<open>
  \<open>([A-Z]{3})\s?(\d{3})\b\<close> at the start of a string: the greedy \<open>\s?\<close> first takes a
  whitespace character if there is one, and gives it back if the rest does not match.
\<close>

fun code_at :: "string \<Rightarrow> (string \<times> string) option" where
  "code_at (a # b # c # rest) =
     (if is_AZ a \<and> is_AZ b \<and> is_AZ c then
        (case (case rest of [] \<Rightarrow> None
               | s # rest' \<Rightarrow> if is_space s then digits3 rest' else None) of
           Some g2 \<Rightarrow> Some ([a, b, c], g2)
         | None \<Rightarrow> (case digits3 rest of Some g2 \<Rightarrow> Some ([a, b, c], g2) | None \<Rightarrow> None))
      else None)"
| "code_at _ = None"

text \<open>
  \<open>COURSE_CODE_RE.search\<close>: the leftmost position with a match; \<open>prev\<close> is the
  character before the current position. The result is (group 1, group 2).
\<close>

fun code_search :: "char option \<Rightarrow> string \<Rightarrow> (string \<times> string) option" where
  "code_search prev [] = None"
| "code_search prev (c # cs) =
     (case (if word_boundary prev (Some c) then code_at (c # cs) else None) of
        Some m \<Rightarrow> Some m
      | None \<Rightarrow> code_search (Some c) cs)"

text \<open>\<open>_match_from_list\<close>: the first candidate whose lowercased form the text contains.\<close>

fun match_from_list :: "string \<Rightarrow> string list \<Rightarrow> string option" where
  "match_from_list text_lower [] = None"
| "match_from_list text_lower (candidate # candidates) =
     (if py_in (str_lower candidate) text_lower then Some candidate
      else match_from_list text_lower candidates)"

text \<open>
  A literal of the pattern against the start of a string under \<open>re.IGNORECASE\<close>: the
  matched text and what follows it.
\<close>

fun literal_ci :: "string \<Rightarrow> string \<Rightarrow> (string \<times> string) option" where
  "literal_ci [] s = Some ([], s)"
| "literal_ci (p # ps) [] = None"
| "literal_ci (p # ps) (c # cs) =
     (if lower_char p = lower_char c then
        (case literal_ci ps cs of Some (m, rest) \<Rightarrow> Some (c # m, rest) | None \<Rightarrow> None)
      else None)"

fun last_char :: "char option \<Rightarrow> string \<Rightarrow> char option" where
  "last_char prev [] = prev"
| "last_char prev (c # cs) = last_char (Some c) cs"

text \<open>
  \<open>(n1|n2|...)\b\<close> at a position: the alternatives in order, the next one when the
  literal or the closing \<open>\b\<close> fails. The result is group 1.
\<close>

fun dept_at :: "string list \<Rightarrow> char option \<Rightarrow> string \<Rightarrow> string option" where
  "dept_at [] prev s = None"
| "dept_at (name # names) prev s =
     (case literal_ci name s of
        Some (m, rest) \<Rightarrow>
          if word_boundary (last_char prev m) (first_char rest) then Some m
          else dept_at names prev s
      | None \<Rightarrow> dept_at names prev s)"

fun dept_search :: "string list \<Rightarrow> char option \<Rightarrow> string \<Rightarrow> string option" where
  "dept_search names prev [] =
     (if word_boundary prev None then dept_at names prev [] else None)"
| "dept_search names prev (c # cs) =
     (case (if word_boundary prev (Some c) then dept_at names prev (c # cs) else None) of
        Some m \<Rightarrow> Some m
      | None \<Rightarrow> dept_search names (Some c) cs)"

text \<open>
  \<open>\s+\d{4}\b\<close> at the start of a string, returning the matched text. The greedy
  \<open>\s+\<close> takes the whole run of whitespace; giving part of it back leaves a whitespace
  character where a digit is required, so no other split is tried.
\<close>

definition spaces_year :: "string \<Rightarrow> string option" where
  "spaces_year s =
     (let ws = takeWhile is_space s in
      if ws = [] then None
      else (case dropWhile is_space s of
              a # b # c # d # rest \<Rightarrow>
                if is_digit a \<and> is_digit b \<and> is_digit c \<and> is_digit d
                   \<and> word_boundary (Some d) (first_char rest)
                then Some (ws @ [a, b, c, d]) else None
            | _ \<Rightarrow> None))"

text \<open>\<open>(Spring|Summer|Fall|Autumn|Winter)\s+\d{4}\b\<close> at a position: (group 1, group 0).\<close>

fun semester_at :: "string list \<Rightarrow> string \<Rightarrow> (string \<times> string) option" where
  "semester_at [] s = None"
| "semester_at (season # seasons) s =
     (case literal_ci season s of
        Some (m, rest) \<Rightarrow>
          (case spaces_year rest of
             Some sy \<Rightarrow> Some (m, m @ sy)
           | None \<Rightarrow> semester_at seasons s)
      | None \<Rightarrow> semester_at seasons s)"

fun semester_search :: "char option \<Rightarrow> string \<Rightarrow> (string \<times> string) option" where
  "semester_search prev [] = None"
| "semester_search prev (c # cs) =
     (case (if word_boundary prev (Some c)
            then semester_at [''Spring'', ''Summer'', ''Fall'', ''Autumn'', ''Winter''] (c # cs)
            else None) of
        Some m \<Rightarrow> Some m
      | None \<Rightarrow> semester_search (Some c) cs)"

text \<open>\<open>str.title\<close>: a letter is uppercased after a non-letter and lowercased after a letter.\<close>

fun title_from :: "bool \<Rightarrow> string \<Rightarrow> string" where
  "title_from after_letter [] = []"
| "title_from after_letter (c # cs) =
     (if is_alpha c then (if after_letter then lower_char c else upper_char c) # title_from True cs
      else c # title_from False cs)"

definition str_title :: "string \<Rightarrow> string" where
  "str_title s = title_from False s"

text \<open>\<open>str.split()\<close>: the maximal runs of characters that are not whitespace.\<close>

fun split_from :: "string \<Rightarrow> string \<Rightarrow> string list" where
  "split_from cur [] = (if cur = [] then [] else [cur])"
| "split_from cur (c # cs) =
     (if is_space c then (if cur = [] then split_from [] cs else cur # split_from [] cs)
      else split_from (cur @ [c]) cs)"

definition str_split :: "string \<Rightarrow> string list" where
  "str_split s = split_from [] s"

text \<open>
  \<open>extract_entities\<close>. \<open>semester_match.group(0).split()[-1]\<close> is \<open>last\<close> of the
  pieces; lemma \<open>semester_search_split\<close> below shows that there is always a piece.
\<close>

definition extract_entities :: "'w chatbot \<Rightarrow> string \<Rightarrow> entities" where
  "extract_entities self text =
     (let text_upper = str_upper text;
          text_lower = str_lower text;
          course_code = (case code_search None text_upper of
                           None \<Rightarrow> None
                         | Some (g1, g2) \<Rightarrow> Some (g1 @ g2));
          teacher = match_from_list text_lower (teacher_names self);
          dept = (case dept_re self of
                    None \<Rightarrow> None
                  | Some names \<Rightarrow>
                      (case dept_search names None text_upper of
                         None \<Rightarrow> None
                       | Some g1 \<Rightarrow> Some (str_upper g1)));
          semester = (case semester_search None text of
                        None \<Rightarrow> None
                      | Some (g1, g0) \<Rightarrow> Some (str_title g1 @ '' '' @ last (str_split g0)))
      in [(''course_code'', course_code), (''teacher'', teacher), (''dept'', dept),
          (''semester'', semester)])"

section \<open>The reply builder\<close>

text \<open>Python's \<open>str\<close> of an integer, as the f-strings render it.\<close>

function str_nat :: "nat \<Rightarrow> string" where
  "str_nat n =
     (if n < 10 then [char_of (48 + n)] else str_nat (n div 10) @ [char_of (48 + n mod 10)])"
  by pat_completeness auto
termination
  by (relation "measure id") auto

declare str_nat.simps [simp del]

definition str_int :: "int \<Rightarrow> string" where
  "str_int i = (if i < 0 then CHR ''-'' # str_nat (nat (- i)) else str_nat (nat i))"

text \<open>\<open>sep.join(xs)\<close>.\<close>

fun join :: "string \<Rightarrow> string list \<Rightarrow> string" where
  "join sep [] = []"
| "join sep [x] = x"
| "join sep (x # y # ys) = x @ sep @ join sep (y # ys)"

definition kg_status :: "'w chatbot \<Rightarrow> 'w \<Rightarrow> (bool \<times> string option) \<times> 'w" where
  "kg_status self w =
     (case kg self of
        None \<Rightarrow> ((False, Some ''KG not configured''), w)
      | Some g \<Rightarrow> health g w)"

definition try_upsert :: "'w chatbot \<Rightarrow> course_record \<Rightarrow> bool \<Rightarrow> 'w \<Rightarrow> 'w" where
  "try_upsert self c kg_ok w =
     (case kg self of
        None \<Rightarrow> w
      | Some g \<Rightarrow> if \<not> kg_ok then w else snd (upsert_course g c w))"

definition get_course :: "'w chatbot \<Rightarrow> string option \<Rightarrow> course_record option" where
  "get_course self c =
     (case c of
        None \<Rightarrow> None
      | Some s \<Rightarrow> if s = [] then None else by_code self (str_upper s))"

text \<open>
  \<open>courses = []\<close>, then \<open>courses, _ = self.kg.get_courses_by_...(value)\<close> when the
  Graph Index is configured and healthy; the error text of the pair is dropped.
\<close>

definition kg_lookup ::
  "'w chatbot \<Rightarrow> bool \<Rightarrow> ('w kg_client \<Rightarrow> 'w \<Rightarrow> (kg_row list \<times> string option) \<times> 'w) \<Rightarrow> 'w
   \<Rightarrow> kg_row list \<times> 'w"
where
  "kg_lookup self kg_ok query w =
     (case kg self of
        None \<Rightarrow> ([], w)
      | Some g \<Rightarrow> if kg_ok then (fst (fst (query g w)), snd (query g w)) else ([], w))"

text \<open>\<open>[{"code": c["course"], "title": c["title"]} for c in self.data if ...]\<close>.\<close>

definition catalog_rows :: "(course_record \<Rightarrow> bool) \<Rightarrow> course_record list \<Rightarrow> kg_row list" where
  "catalog_rows keep cs = map (\<lambda>c. \<lparr> code = course c, row_title = title c \<rparr>) (filter keep cs)"

text \<open>The loop \<open>for course in courses\<close> that writes the resolved records through.\<close>

fun upsert_rows :: "'w chatbot \<Rightarrow> bool \<Rightarrow> kg_row list \<Rightarrow> 'w \<Rightarrow> 'w" where
  "upsert_rows self kg_ok [] w = w"
| "upsert_rows self kg_ok (r # rs) w =
     upsert_rows self kg_ok rs
       (case by_code self (str_upper (code r)) of
          None \<Rightarrow> w
        | Some record \<Rightarrow> try_upsert self record kg_ok w)"

definition not_found :: string where
  "not_found = ''Course code not found. (No matching course.)''"

text \<open>
  The branches of \<open>build_reply\<close>, one per intent, after the health probe; \<open>w\<close> is the
  world after the probe.
\<close>

fun reply_for ::
  "'w chatbot \<Rightarrow> intent \<Rightarrow> entities \<Rightarrow> bool \<Rightarrow> string \<Rightarrow> 'w \<Rightarrow> string \<times> 'w"
where
  "reply_for self Help entities kg_ok warning w =
     (''Commands: course teacher/title/credit/semester, teacher courses, dept courses, ''
      @ ''semester courses, graph status. (Try: '' @ [CHR 0x27] @ ''who teaches CSE411''
      @ [CHR 0x27] @ '', '' @ [CHR 0x27] @ ''CSE dept courses'' @ [CHR 0x27] @ '')'', w)"
| "reply_for self Graph_show entities kg_ok warning w =
     (case kg self of
        None \<Rightarrow> (''Graph unavailable. Neo4j is not running.'', w)
      | Some g \<Rightarrow>
          if \<not> kg_ok then (''Graph unavailable. Neo4j is not running.'', w)
          else
            (case summary g w of
               ((None, error), w') \<Rightarrow> (''Graph summary not available right now.'', w')
             | ((Some sm, error), w') \<Rightarrow>
                 if truthy error then (''Graph summary not available right now.'', w')
                 else
                   (''Graph summary: '' @ str_int (nodes sm) @ '' nodes, ''
                    @ str_int (edges sm) @ '' edges. (KG has '' @ str_int (nodes sm)
                    @ '' nodes and '' @ str_int (edges sm) @ '' edges.)'', w')))"
| "reply_for self Course_teacher entities kg_ok warning w =
     (case get_course self (dict_get entities ''course_code'') of
        None \<Rightarrow> (not_found, w)
      | Some c \<Rightarrow>
          (course c @ '' course er teacher: '' @ teacher c @ ''. (Teacher of '' @ course c
           @ '' is '' @ teacher c @ ''.)'' @ warning,
           try_upsert self c kg_ok w))"
| "reply_for self Course_title entities kg_ok warning w =
     (case get_course self (dict_get entities ''course_code'') of
        None \<Rightarrow> (not_found, w)
      | Some c \<Rightarrow>
          (course c @ '' course er title: '' @ title c @ ''. (Title of '' @ course c
           @ '' is '' @ title c @ ''.)'' @ warning,
           try_upsert self c kg_ok w))"
| "reply_for self Course_credit entities kg_ok warning w =
     (case get_course self (dict_get entities ''course_code'') of
        None \<Rightarrow> (not_found, w)
      | Some c \<Rightarrow>
          (course c @ '' course er credit: '' @ str_int (credit c) @ ''. (Credits of ''
           @ course c @ '' are '' @ str_int (credit c) @ ''.)'' @ warning,
           try_upsert self c kg_ok w))"
| "reply_for self Course_semester entities kg_ok warning w =
     (case get_course self (dict_get entities ''course_code'') of
        None \<Rightarrow> (not_found, w)
      | Some c \<Rightarrow>
          (course c @ '' course offered in: '' @ semester c @ ''. ('' @ course c
           @ '' is offered in '' @ semester c @ ''.)'' @ warning,
           try_upsert self c kg_ok w))"
| "reply_for self Course_info entities kg_ok warning w =
     (case get_course self (dict_get entities ''course_code'') of
        None \<Rightarrow> (not_found, w)
      | Some c \<Rightarrow>
          (course c @ '': '' @ title c @ '', '' @ teacher c @ '', '' @ str_int (credit c)
           @ '' credit, '' @ semester c @ ''. ('' @ course c @ '' course info: '' @ title c
           @ '', teacher '' @ teacher c @ '', '' @ str_int (credit c)
           @ '' credits, offered in '' @ semester c @ ''.)'' @ warning,
           try_upsert self c kg_ok w))"
| "reply_for self Teacher_courses entities kg_ok warning w =
     (case dict_get entities ''teacher'' of
        None \<Rightarrow> (''Teacher name not found. (Try a full name.)'', w)
      | Some v \<Rightarrow>
          if v = [] then (''Teacher name not found. (Try a full name.)'', w)
          else
            (case kg_lookup self kg_ok (\<lambda>g. get_courses_by_teacher g v) w of
               (found, w') \<Rightarrow>
                 let courses = (if found = []
                                then catalog_rows (\<lambda>c. teacher c = v) (data self)
                                else found)
                 in if courses = [] then (''No courses found for that teacher.'', w')
                    else
                      (v @ '' er courses: '' @ join '', '' (map code courses)
                       @ ''. (Courses taught by '' @ v @ '': '' @ join '', '' (map code courses)
                       @ ''.)'' @ warning,
                       upsert_rows self kg_ok courses w')))"
| "reply_for self Dept_courses entities kg_ok warning w =
     (case dict_get entities ''dept'' of
        None \<Rightarrow> (''Department not found. (Try: CSE department courses.)'', w)
      | Some v \<Rightarrow>
          if v = [] then (''Department not found. (Try: CSE department courses.)'', w)
          else
            (case kg_lookup self kg_ok (\<lambda>g. get_courses_by_dept g v) w of
               (found, w') \<Rightarrow>
                 let courses = (if found = []
                                then catalog_rows (\<lambda>c. str_upper (dept c) = str_upper v)
                                       (data self)
                                else found)
                 in if courses = [] then (''No courses found for that department.'', w')
                    else
                      (v @ '' department er courses: '' @ join '', '' (map code courses)
                       @ ''. (Courses in '' @ v @ '' department: ''
                       @ join '', '' (map code courses) @ ''.)'' @ warning,
                       upsert_rows self kg_ok courses w')))"
| "reply_for self Semester_courses entities kg_ok warning w =
     (case dict_get entities ''semester'' of
        None \<Rightarrow> (''Semester not found. (Try: Spring 2025 courses.)'', w)
      | Some v \<Rightarrow>
          if v = [] then (''Semester not found. (Try: Spring 2025 courses.)'', w)
          else
            (case kg_lookup self kg_ok (\<lambda>g. get_courses_by_semester g v) w of
               (found, w') \<Rightarrow>
                 let courses = (if found = []
                                then catalog_rows (\<lambda>c. str_lower (semester c) = str_lower v)
                                       (data self)
                                else found)
                 in if courses = [] then (''No courses found for that semester.'', w')
                    else
                      (v @ '' er courses: '' @ join '', '' (map code courses)
                       @ ''. (Courses offered in '' @ v @ '': ''
                       @ join '', '' (map code courses) @ ''.)'' @ warning,
                       upsert_rows self kg_ok courses w')))"
| "reply_for self Unknown entities kg_ok warning w =
     (''Sorry, bujhte parini. (Sorry, I could not understand.)'', w)"

definition advisory :: string where
  "advisory = '' Neo4j down, dataset result dekhacchi.''"

definition build_reply :: "'w chatbot \<Rightarrow> intent \<Rightarrow> entities \<Rightarrow> 'w \<Rightarrow> string \<times> 'w" where
  "build_reply self intent entities w =
     (case kg_status self w of
        ((kg_ok, kg_error), w1) \<Rightarrow>
          let warning = (if kg self \<noteq> None \<and> \<not> kg_ok then advisory else [])
          in reply_for self intent entities kg_ok warning w1)"

definition process :: "'w chatbot \<Rightarrow> string \<Rightarrow> 'w \<Rightarrow> (string \<times> intent \<times> entities) \<times> 'w" where
  "process self text w =
     (let entities = extract_entities self text;
          intent = detect_intent text entities
      in case build_reply self intent entities w of
           (reply, w') \<Rightarrow> ((reply, intent, entities), w'))"

section \<open>The Graph Index client\<close>

text \<open>
  The methods of \<open>KnowledgeGraph\<close> run against the Neo4j driver, which can raise at every
  call. An exception carries its text (what \<open>str(exc)\<close> gives) and is either of class
  \<open>Exception\<close> or outside it (\<open>KeyboardInterrupt\<close>, \<open>SystemExit\<close>, \<open>GeneratorExit\<close>),
  written \<open>BaseException\<close> here. A Python computation is a function of the state that
  yields the exception raised or a value, and the new state.
\<close>

datatype exn = Exception string | BaseException string

type_synonym ('a, 's) py = "'s \<Rightarrow> (exn + 'a) \<times> 's"

definition py_return :: "'a \<Rightarrow> ('a, 's) py" where
  "py_return x s = (Inr x, s)"

definition py_raise :: "exn \<Rightarrow> ('a, 's) py" where
  "py_raise e s = (Inl e, s)"

definition py_bind :: "('a, 's) py \<Rightarrow> ('a \<Rightarrow> ('b, 's) py) \<Rightarrow> ('b, 's) py" where
  "py_bind m f s = (case m s of (Inl e, s') \<Rightarrow> (Inl e, s') | (Inr x, s') \<Rightarrow> f x s')"

text \<open>
  \<open>try: body except Exception as exc: handler\<close>, the handler given \<open>str(exc)\<close>. An
  exception outside class \<open>Exception\<close> is not caught.
\<close>

definition try_except :: "('a, 's) py \<Rightarrow> (string \<Rightarrow> ('a, 's) py) \<Rightarrow> ('a, 's) py" where
  "try_except body handler s =
     (case body s of
        (Inl (Exception msg), s') \<Rightarrow> handler msg s'
      | (Inl (BaseException msg), s') \<Rightarrow> (Inl (BaseException msg), s')
      | (Inr x, s') \<Rightarrow> (Inr x, s'))"

text \<open>The values of a Neo4j record, and a record as the dictionary \<open>dict(row)\<close>.\<close>

datatype nvalue = NNull | NInt int | NStr string | NList "nvalue list" | NMap "(string \<times> nvalue) list"

type_synonym nrecord = "(string \<times> nvalue) list"

text \<open>
  The driver as the methods use it, over its own world \<open>'d\<close>:
  \<open>GraphDatabase.driver(uri, auth=(user, password))\<close>, \<open>driver.session(...)\<close>, leaving
  the \<open>with\<close> block, \<open>session.run(cypher, params)\<close>, and on the result \<open>consume()\<close>,
  \<open>single()\<close> and the iteration over all its rows.
\<close>

record 'd neo4j =
  driver_open :: "string \<Rightarrow> string \<Rightarrow> string \<Rightarrow> (unit, 'd) py"
  session_open :: "string option \<Rightarrow> (unit, 'd) py"
  session_close :: "(unit, 'd) py"
  run :: "string \<Rightarrow> nrecord \<Rightarrow> (unit, 'd) py"
  consume :: "(unit, 'd) py"
  single :: "(nrecord option, 'd) py"
  fetch_all :: "(nrecord list, 'd) py"

text \<open>The object: its four settings and whether \<open>self.driver\<close> is set.\<close>

record knowledge_graph =
  uri :: string
  user :: string
  password :: string
  database :: "string option"
  driver :: bool

definition lift :: "('a, 'd) py \<Rightarrow> ('a, knowledge_graph \<times> 'd) py" where
  "lift m = (\<lambda>(k, d). case m d of (r, d') \<Rightarrow> (r, (k, d')))"

definition connect :: "'d neo4j \<Rightarrow> (unit, knowledge_graph \<times> 'd) py" where
  "connect n =
     (\<lambda>(k, d).
        if \<not> driver k then
          (case driver_open n (uri k) (user k) (password k) d of
             (Inl e, d') \<Rightarrow> (Inl e, (k, d'))
           | (Inr _, d') \<Rightarrow> (Inr (), (k\<lparr>driver := True\<rparr>, d')))
        else (Inr (), (k, d)))"

text \<open>\<open>_session\<close>: connect when there is no driver yet, then open a session.\<close>

definition session :: "'d neo4j \<Rightarrow> (unit, knowledge_graph \<times> 'd) py" where
  "session n =
     py_bind (\<lambda>(k, d). if \<not> driver k then connect n (k, d) else (Inr (), (k, d)))
       (\<lambda>_. (\<lambda>(k, d).
          if truthy (database k) then lift (session_open n (database k)) (k, d)
          else lift (session_open n None) (k, d)))"

text \<open>
  \<open>with self._session() as session: body\<close>. The session is closed on every way out of
  the body; an exception raised by the closing replaces the outcome of the body.
\<close>

definition with_session ::
  "'d neo4j \<Rightarrow> ('a, knowledge_graph \<times> 'd) py \<Rightarrow> ('a, knowledge_graph \<times> 'd) py" where
  "with_session n body =
     py_bind (session n)
       (\<lambda>_ s. case body s of
          (r, s') \<Rightarrow>
            (case lift (session_close n) s' of
               (Inl e, s'') \<Rightarrow> (Inl e, s'')
             | (Inr _, s'') \<Rightarrow> (r, s'')))"

text \<open>\<open>row[key]\<close>: a missing key raises \<open>KeyError\<close>, whose text is the quoted key.\<close>

definition getitem :: "nrecord \<Rightarrow> string \<Rightarrow> (nvalue, 's) py" where
  "getitem r k =
     (case map_of r k of
        None \<Rightarrow> py_raise (Exception ([CHR 0x27] @ k @ [CHR 0x27]))
      | Some v \<Rightarrow> py_return v)"

text \<open>A list comprehension whose element expression may raise.\<close>

fun py_map :: "('a \<Rightarrow> ('b, 's) py) \<Rightarrow> 'a list \<Rightarrow> ('b list, 's) py" where
  "py_map f [] = py_return []"
| "py_map f (x # xs) = py_bind (f x) (\<lambda>y. py_bind (py_map f xs) (\<lambda>ys. py_return (y # ys)))"

definition health_body :: "'d neo4j \<Rightarrow> (unit, knowledge_graph \<times> 'd) py" where
  "health_body n = with_session n (py_bind (lift (run n ''RETURN 1'' [])) (\<lambda>_. lift (consume n)))"

definition kg_health :: "'d neo4j \<Rightarrow> (bool \<times> string option, knowledge_graph \<times> 'd) py" where
  "kg_health n =
     try_except (py_bind (health_body n) (\<lambda>_. py_return (True, None)))
       (\<lambda>exc. py_return (False, Some exc))"

definition statements :: "string list" where
  "statements =
     [''CREATE CONSTRAINT course_code_unique IF NOT EXISTS FOR (c:Course) REQUIRE c.code IS UNIQUE'',
      ''CREATE CONSTRAINT teacher_name_unique IF NOT EXISTS FOR (t:Teacher) REQUIRE t.name IS UNIQUE'',
      ''CREATE CONSTRAINT department_name_unique IF NOT EXISTS FOR (d:Department) REQUIRE d.name IS UNIQUE'',
      ''CREATE CONSTRAINT semester_name_unique IF NOT EXISTS FOR (s:Semester) REQUIRE s.name IS UNIQUE'']"

fun run_each :: "'d neo4j \<Rightarrow> string list \<Rightarrow> (unit, knowledge_graph \<times> 'd) py" where
  "run_each n [] = py_return ()"
| "run_each n (stmt # stmts) =
     py_bind (lift (run n stmt [])) (\<lambda>_. py_bind (lift (consume n)) (\<lambda>_. run_each n stmts))"

definition ensure_constraints_body :: "'d neo4j \<Rightarrow> (unit, knowledge_graph \<times> 'd) py" where
  "ensure_constraints_body n = with_session n (run_each n statements)"

definition kg_ensure_constraints ::
  "'d neo4j \<Rightarrow> (bool \<times> string option, knowledge_graph \<times> 'd) py" where
  "kg_ensure_constraints n =
     try_except (py_bind (ensure_constraints_body n) (\<lambda>_. py_return (True, None)))
       (\<lambda>exc. py_return (False, Some exc))"

definition upsert_cypher :: string where
  "upsert_cypher =
     ''MERGE (c:Course {code: $code}) ''
     @ ''ON CREATE SET c.title = $title, c.credit = $credit ''
     @ ''ON MATCH SET c.title = $title, c.credit = $credit ''
     @ ''MERGE (t:Teacher {name: $teacher}) ''
     @ ''MERGE (d:Department {name: $dept}) ''
     @ ''MERGE (s:Semester {name: $semester}) ''
     @ ''MERGE (c)-[:TAUGHT_BY]->(t) ''
     @ ''MERGE (c)-[:BELONGS_TO]->(d) ''
     @ ''MERGE (c)-[:OFFERED_IN]->(s)''"

text \<open>
  The argument of \<open>upsert_course\<close>: a dictionary, or an object that has no \<open>get\<close>
  method (\<open>None\<close>, a list, a number). \<open>record.get(key)\<close> on a dictionary is \<open>None\<close> for
  a missing key.
\<close>

datatype pyarg = Py_dict nrecord | Py_other

definition record_get :: "nrecord \<Rightarrow> string \<Rightarrow> nvalue" where
  "record_get record k = (case map_of record k of None \<Rightarrow> NNull | Some v \<Rightarrow> v)"

definition upsert_params :: "nrecord \<Rightarrow> nrecord" where
  "upsert_params record =
     [(''code'', record_get record ''course''), (''title'', record_get record ''title''),
      (''credit'', record_get record ''credit''), (''teacher'', record_get record ''teacher''),
      (''dept'', record_get record ''dept''), (''semester'', record_get record ''semester'')]"

definition upsert_body :: "'d neo4j \<Rightarrow> nrecord \<Rightarrow> (unit, knowledge_graph \<times> 'd) py" where
  "upsert_body n record =
     with_session n
       (py_bind (lift (run n upsert_cypher (upsert_params record))) (\<lambda>_. lift (consume n)))"

text \<open>
  \<open>upsert_course\<close> builds \<open>params\<close> with \<open>record.get\<close> before its \<open>try\<close>: on an
  argument without \<open>get\<close> the \<open>AttributeError\<close> is raised outside the handler.
\<close>

definition kg_upsert_course ::
  "'d neo4j \<Rightarrow> pyarg \<Rightarrow> (bool \<times> string option, knowledge_graph \<times> 'd) py" where
  "kg_upsert_course n arg =
     (case arg of
        Py_other \<Rightarrow> py_raise (Exception ''object has no attribute get'')
      | Py_dict record \<Rightarrow>
          try_except (py_bind (upsert_body n record) (\<lambda>_. py_return (True, None)))
            (\<lambda>exc. py_return (False, Some exc)))"

definition summary_cypher :: string where
  "summary_cypher =
     ''MATCH (n) OPTIONAL MATCH ()-[r]->() RETURN count(DISTINCT n) AS nodes, count(r) AS rels''"

definition summary_body ::
  "'d neo4j \<Rightarrow> (nrecord option \<times> string option, knowledge_graph \<times> 'd) py" where
  "summary_body n =
     with_session n
       (py_bind (lift (run n summary_cypher []))
         (\<lambda>_. py_bind (lift (single n))
           (\<lambda>record. case record of
              None \<Rightarrow> py_return (Some [(''nodes'', NInt 0), (''edges'', NInt 0)], None)
            | Some r \<Rightarrow>
                py_bind (getitem r ''nodes'')
                  (\<lambda>a. py_bind (getitem r ''rels'')
                    (\<lambda>b. py_return (Some [(''nodes'', a), (''edges'', b)], None))))))"

definition kg_summary_of ::
  "'d neo4j \<Rightarrow> (nrecord option \<times> string option, knowledge_graph \<times> 'd) py" where
  "kg_summary_of n = try_except (summary_body n) (\<lambda>exc. py_return (None, Some exc))"

definition node_of :: "nrecord \<Rightarrow> (nrecord, 's) py" where
  "node_of row =
     py_bind (getitem row ''id'')
       (\<lambda>i. py_bind (getitem row ''label'')
         (\<lambda>l. py_bind (getitem row ''props'')
           (\<lambda>p. py_return [(''id'', i), (''type'', l), (''props'', p)])))"

definition edge_of :: "nrecord \<Rightarrow> (nrecord, 's) py" where
  "edge_of row =
     py_bind (getitem row ''id'')
       (\<lambda>i. py_bind (getitem row ''type'')
         (\<lambda>t. py_bind (getitem row ''source'')
           (\<lambda>a. py_bind (getitem row ''target'')
             (\<lambda>b. py_return [(''id'', i), (''type'', t), (''source'', a), (''target'', b)]))))"

definition export_body ::
  "'d neo4j \<Rightarrow> (nrecord list \<times> nrecord list, knowledge_graph \<times> 'd) py" where
  "export_body n =
     with_session n
       (py_bind (lift (run n
            ''MATCH (n) RETURN id(n) AS id, labels(n)[0] AS label, properties(n) AS props'' []))
         (\<lambda>_. py_bind (lift (fetch_all n))
           (\<lambda>node_rows. py_bind (py_map node_of node_rows)
             (\<lambda>nodes. py_bind (lift (run n
                  ''MATCH (a)-[r]->(b) RETURN id(r) AS id, type(r) AS type, id(a) AS source, id(b) AS target'' []))
               (\<lambda>_. py_bind (lift (fetch_all n))
                 (\<lambda>edge_rows. py_bind (py_map edge_of edge_rows)
                   (\<lambda>edges. py_return (nodes, edges))))))))"

definition kg_export_graph ::
  "'d neo4j \<Rightarrow> ((nrecord list \<times> nrecord list) option \<times> string option, knowledge_graph \<times> 'd) py"
where
  "kg_export_graph n =
     try_except (py_bind (export_body n) (\<lambda>graph. py_return (Some graph, None)))
       (\<lambda>exc. py_return (None, Some exc))"

definition lookup_body ::
  "'d neo4j \<Rightarrow> string \<Rightarrow> nrecord \<Rightarrow> (nrecord list \<times> string option, knowledge_graph \<times> 'd) py"
where
  "lookup_body n cypher params =
     with_session n
       (py_bind (lift (run n cypher params))
         (\<lambda>_. py_bind (lift (fetch_all n)) (\<lambda>rows. py_return (rows, None))))"

definition by_teacher_cypher :: string where
  "by_teacher_cypher =
     ''MATCH (t:Teacher {name: $teacher})<-[:TAUGHT_BY]-(c:Course) ''
     @ ''RETURN c.code AS code, c.title AS title ORDER BY c.code''"

definition by_dept_cypher :: string where
  "by_dept_cypher =
     ''MATCH (d:Department {name: $dept})<-[:BELONGS_TO]-(c:Course) ''
     @ ''RETURN c.code AS code, c.title AS title ORDER BY c.code''"

definition by_semester_cypher :: string where
  "by_semester_cypher =
     ''MATCH (s:Semester {name: $semester})<-[:OFFERED_IN]-(c:Course) ''
     @ ''RETURN c.code AS code, c.title AS title ORDER BY c.code''"

definition kg_get_courses_by_teacher ::
  "'d neo4j \<Rightarrow> string \<Rightarrow> (nrecord list \<times> string option, knowledge_graph \<times> 'd) py" where
  "kg_get_courses_by_teacher n v =
     try_except
       (lookup_body n by_teacher_cypher [(''teacher'', NStr v)])
       (\<lambda>exc. py_return ([], Some exc))"

definition kg_get_courses_by_dept ::
  "'d neo4j \<Rightarrow> string \<Rightarrow> (nrecord list \<times> string option, knowledge_graph \<times> 'd) py" where
  "kg_get_courses_by_dept n v =
     try_except
       (lookup_body n by_dept_cypher [(''dept'', NStr v)])
       (\<lambda>exc. py_return ([], Some exc))"

definition kg_get_courses_by_semester ::
  "'d neo4j \<Rightarrow> string \<Rightarrow> (nrecord list \<times> string option, knowledge_graph \<times> 'd) py" where
  "kg_get_courses_by_semester n v =
     try_except
       (lookup_body n by_semester_cypher [(''semester'', NStr v)])
       (\<lambda>exc. py_return ([], Some exc))"

text \<open>An outcome that is a returned pair, not a raised exception.\<close>

definition returns_pair :: "((exn + 'a \<times> string option) \<times> 's) \<Rightarrow> bool" where
  "returns_pair r = (case fst r of Inl exc \<Rightarrow> False | Inr p \<Rightarrow> True)"

text \<open>
  A computation that raises nothing outside class \<open>Exception\<close>, and a driver all of
  whose operations are such.
\<close>

definition ordinary :: "('a, 's) py \<Rightarrow> bool" where
  "ordinary m = (\<forall>s msg. fst (m s) \<noteq> Inl (BaseException msg))"

definition ordinary_driver :: "'d neo4j \<Rightarrow> bool" where
  "ordinary_driver n =
     ((\<forall>a b c. ordinary (driver_open n a b c)) \<and> (\<forall>db. ordinary (session_open n db))
      \<and> ordinary (session_close n) \<and> (\<forall>q p. ordinary (run n q p))
      \<and> ordinary (consume n) \<and> ordinary (single n) \<and> ordinary (fetch_all n))"

section \<open>The calls a request makes on the Graph Index\<close>

text \<open>
  To say which calls \<open>build_reply\<close> issues, the world it leaves behind is compared with
  the world left by an explicit sequence of calls on the same collaborator. The
  comparison holds for every collaborator, in particular for one that records its calls.
\<close>

datatype kg_call =
    Health | Summary | Upsert course_record
  | By_teacher string | By_dept string | By_semester string

fun call_kg :: "'w kg_client \<Rightarrow> kg_call \<Rightarrow> 'w \<Rightarrow> 'w" where
  "call_kg g Health w = snd (health g w)"
| "call_kg g Summary w = snd (summary g w)"
| "call_kg g (Upsert c) w = snd (upsert_course g c w)"
| "call_kg g (By_teacher v) w = snd (get_courses_by_teacher g v w)"
| "call_kg g (By_dept v) w = snd (get_courses_by_dept g v w)"
| "call_kg g (By_semester v) w = snd (get_courses_by_semester g v w)"

definition after_calls :: "'w chatbot \<Rightarrow> kg_call list \<Rightarrow> 'w \<Rightarrow> 'w" where
  "after_calls self calls w = (case kg self of None \<Rightarrow> w | Some g \<Rightarrow> fold (call_kg g) calls w)"

text \<open>The records of the catalog that the rows of a result list resolve to.\<close>

definition resolved :: "'w chatbot \<Rightarrow> kg_row list \<Rightarrow> course_record list" where
  "resolved self rows = List.map_filter (\<lambda>r. by_code self (str_upper (code r))) rows"

definition single_course :: "intent list" where
  "single_course = [Course_teacher, Course_title, Course_credit, Course_semester, Course_info]"

definition lookup_intents :: "intent list" where
  "lookup_intents = [Teacher_courses, Dept_courses, Semester_courses]"

fun entity_key :: "intent \<Rightarrow> string" where
  "entity_key Teacher_courses = ''teacher''"
| "entity_key Dept_courses = ''dept''"
| "entity_key Semester_courses = ''semester''"
| "entity_key _ = ''course_code''"

fun lookup_call :: "intent \<Rightarrow> string \<Rightarrow> kg_call" where
  "lookup_call Teacher_courses v = By_teacher v"
| "lookup_call Dept_courses v = By_dept v"
| "lookup_call Semester_courses v = By_semester v"
| "lookup_call _ v = Health"

fun kg_answer :: "'w kg_client \<Rightarrow> intent \<Rightarrow> string \<Rightarrow> 'w \<Rightarrow> kg_row list \<times> string option" where
  "kg_answer g Teacher_courses v w = fst (get_courses_by_teacher g v w)"
| "kg_answer g Dept_courses v w = fst (get_courses_by_dept g v w)"
| "kg_answer g Semester_courses v w = fst (get_courses_by_semester g v w)"
| "kg_answer g _ v w = ([], None)"

section \<open>The precedence list of the specification\<close>

text \<open>
  The rules of the classifier as the specification lists them, in order, each a condition
  and the intent it selects; rule 3 is unfolded into its five sub-rules, all under the
  presence of a course code. \<open>first_match\<close> takes the intent of the first rule whose
  condition holds, and \<open>unknown\<close> when there is none.
\<close>

fun first_match :: "(bool \<times> intent) list \<Rightarrow> intent" where
  "first_match [] = Unknown"
| "first_match ((holds, i) # rules) = (if holds then i else first_match rules)"

definition precedence :: "string \<Rightarrow> entities \<Rightarrow> (bool \<times> intent) list" where
  "precedence text entities =
     (let t = str_lower text;
          present = (\<lambda>k. truthy (dict_get entities k));
          with_code = present ''course_code''
      in [(any_in [''help'', ''commands'', ''what can you do''] t, Help),
          (any_in [''graph'', ''kg''] t, Graph_show),
          (with_code \<and> any_in [''teacher'', ''teach'', ''teaches'', ''instructor''] t,
           Course_teacher),
          (with_code \<and> any_in [''title'', ''name''] t, Course_title),
          (with_code \<and> any_in [''credit'', ''credits''] t, Course_credit),
          (with_code \<and> any_in [''semester'', ''term''] t, Course_semester),
          (with_code, Course_info),
          (present ''teacher'' \<and> any_in [''courses'', ''teach'', ''teaches''] t, Teacher_courses),
          (present ''dept'' \<and> any_in [''department'', ''dept'', ''courses''] t, Dept_courses),
          (present ''semester'' \<and> any_in [''courses'', ''offered''] t, Semester_courses)])"

section \<open>The catalog filter of the specification\<close>

text \<open>
  Filtering the catalog directly, as the specification words it: a teacher by the exact
  name, a department and a semester without regard to case; the result in catalog order.
  \<open>listing\<close> and \<open>none_found\<close> are the two reply texts of a lookup intent, before the
  advisory suffix.
\<close>

definition same_ignoring_case :: "string \<Rightarrow> string \<Rightarrow> bool" where
  "same_ignoring_case a b = (str_lower a = str_lower b)"

fun catalog_filter :: "intent \<Rightarrow> string \<Rightarrow> course_record list \<Rightarrow> course_record list" where
  "catalog_filter Teacher_courses v cs = filter (\<lambda>c. teacher c = v) cs"
| "catalog_filter Dept_courses v cs = filter (\<lambda>c. same_ignoring_case (dept c) v) cs"
| "catalog_filter Semester_courses v cs = filter (\<lambda>c. same_ignoring_case (semester c) v) cs"
| "catalog_filter _ v cs = []"

fun listing :: "intent \<Rightarrow> string \<Rightarrow> string list \<Rightarrow> string" where
  "listing Teacher_courses v codes =
     v @ '' er courses: '' @ join '', '' codes @ ''. (Courses taught by '' @ v @ '': ''
     @ join '', '' codes @ ''.)''"
| "listing Dept_courses v codes =
     v @ '' department er courses: '' @ join '', '' codes @ ''. (Courses in '' @ v
     @ '' department: '' @ join '', '' codes @ ''.)''"
| "listing Semester_courses v codes =
     v @ '' er courses: '' @ join '', '' codes @ ''. (Courses offered in '' @ v @ '': ''
     @ join '', '' codes @ ''.)''"
| "listing _ v codes = []"

fun none_found :: "intent \<Rightarrow> string" where
  "none_found Teacher_courses = ''No courses found for that teacher.''"
| "none_found Dept_courses = ''No courses found for that department.''"
| "none_found Semester_courses = ''No courses found for that semester.''"
| "none_found _ = []"

text \<open>
  The result list of a lookup intent: the rows the Graph Index returned, or the rows of
  the catalog filter when it returned none.
\<close>

definition result_rows :: "'w chatbot \<Rightarrow> intent \<Rightarrow> string \<Rightarrow> kg_row list \<Rightarrow> kg_row list" where
  "result_rows self i v found =
     (if found = []
      then map (\<lambda>c. \<lparr> code = course c, row_title = title c \<rparr>) (catalog_filter i v (data self))
      else found)"

section \<open>The course-code pattern, declaratively\<close>

text \<open>
  A match of \<open>\b([A-Z]{3})\s?(\d{3})\b\<close> that starts at \<open>s\<close>, with \<open>prev\<close> the character
  before it, and yields the code \<open>c\<close>: three letters at a word boundary, at most one
  whitespace character, three digits followed by a word boundary.
\<close>

definition code_here :: "char option \<Rightarrow> string \<Rightarrow> string \<Rightarrow> bool" where
  "code_here prev s c =
     (\<exists>g1 sp g2 rest.
        s = g1 @ sp @ g2 @ rest \<and> c = g1 @ g2
        \<and> length g1 = 3 \<and> list_all is_AZ g1
        \<and> (sp = [] \<or> (\<exists>x. sp = [x] \<and> is_space x))
        \<and> length g2 = 3 \<and> list_all is_digit g2
        \<and> word_boundary prev (first_char s)
        \<and> word_boundary (last_char None g2) (first_char rest))"

section \<open>An example catalog and a recording Graph Index\<close>

text \<open>
  Three courses, and a Graph Index double whose world is the list of the calls made on it
  and whose answers are fixed: the health pair, the pair of every lookup, the pair of
  every upsert.
\<close>

definition cse411 :: course_record where
  "cse411 = \<lparr> course = ''CSE411'', title = ''Algorithms'', teacher = ''Dr. A'', dept = ''CSE'',
              semester = ''Fall 2024'', credit = 3 \<rparr>"

definition cse100 :: course_record where
  "cse100 = \<lparr> course = ''CSE100'', title = ''Intro'', teacher = ''Jane'', dept = ''CSE'',
              semester = ''Spring 2025'', credit = 3 \<rparr>"

definition eee101 :: course_record where
  "eee101 = \<lparr> course = ''EEE101'', title = ''Circuits'', teacher = ''Jane Smith'', dept = ''EEE'',
              semester = ''Spring 2025'', credit = 3 \<rparr>"

definition recording_kg ::
  "bool \<times> string option \<Rightarrow> (kg_row list \<times> string option) \<Rightarrow> bool \<times> string option \<Rightarrow> (kg_call list) kg_client" where
  "recording_kg h rows u =
     \<lparr> health = (\<lambda>w. (h, w @ [Health])),
       upsert_course = (\<lambda>c w. (u, w @ [Upsert c])),
       summary = (\<lambda>w. ((Some \<lparr> nodes = 0, edges = 0 \<rparr>, None), w @ [Summary])),
       get_courses_by_teacher = (\<lambda>v w. (rows, w @ [By_teacher v])),
       get_courses_by_dept = (\<lambda>v w. (rows, w @ [By_dept v])),
       get_courses_by_semester = (\<lambda>v w. (rows, w @ [By_semester v])) \<rparr>"

definition demo :: "'w kg_client option \<Rightarrow> 'w chatbot" where
  "demo g = chatbot_init remdups [cse411, eee101, cse100] g"

definition healthy_kg :: "(kg_call list) kg_client" where
  "healthy_kg = recording_kg (True, None) ([], None) (True, None)"

definition down_kg :: "(kg_call list) kg_client" where
  "down_kg = recording_kg (False, Some ''ServiceUnavailable'') ([], Some ''ServiceUnavailable'')
     (False, Some ''ServiceUnavailable'')"

definition failing_lookup_kg :: "(kg_call list) kg_client" where
  "failing_lookup_kg = recording_kg (True, None) ([], Some ''ServiceUnavailable'') (True, None)"

definition ask_code :: "string \<Rightarrow> entities" where
  "ask_code v = [(''course_code'', Some v), (''teacher'', None), (''dept'', None), (''semester'', None)]"

definition ask_teacher :: "string \<Rightarrow> entities" where
  "ask_teacher v = [(''course_code'', None), (''teacher'', Some v), (''dept'', None), (''semester'', None)]"

definition ask_dept :: "string \<Rightarrow> entities" where
  "ask_dept v = [(''course_code'', None), (''teacher'', None), (''dept'', Some v), (''semester'', None)]"

definition phy201 :: course_record where
  "phy201 = \<lparr> course = ''PHY201'', title = ''Mechanics'', teacher = ''Dr. Bob Stone'',
              dept = ''PHY'', semester = ''Fall 2024'', credit = 3 \<rparr>"

definition demo_wide :: "'w kg_client option \<Rightarrow> 'w chatbot" where
  "demo_wide g = chatbot_init remdups [cse411, eee101, cse100, phy201] g"

text \<open>
  A driver that fails every call on the database with the given exception, and a client
  object as \<open>app.py\<close> makes it.
\<close>

definition failing :: "exn \<Rightarrow> unit neo4j" where
  "failing exc =
     \<lparr> driver_open = (\<lambda>a b c. py_return ()),
       session_open = (\<lambda>db. py_raise exc),
       session_close = py_return (),
       run = (\<lambda>q p. py_raise exc),
       consume = py_raise exc,
       single = py_raise exc,
       fetch_all = py_raise exc \<rparr>"

definition unreachable :: "unit neo4j" where
  "unreachable = failing (Exception ''ServiceUnavailable'')"

definition interrupted :: "unit neo4j" where
  "interrupted = failing (BaseException ''KeyboardInterrupt'')"

definition course_dict :: "course_record \<Rightarrow> nrecord" where
  "course_dict c =
     [(''course'', NStr (course c)), (''title'', NStr (title c)), (''teacher'', NStr (teacher c)),
      (''dept'', NStr (dept c)), (''semester'', NStr (semester c)), (''credit'', NInt (credit c))]"

definition local_kg :: knowledge_graph where
  "local_kg = \<lparr> uri = ''bolt://localhost:7687'', user = ''neo4j'', password = ''password'',
                database = None, driver = False \<rparr>"

section \<open>Facts about strings\<close>

lemmas str_eval = str_lower_def str_upper_def lower_char_def upper_char_def
  char_of_def bit_Suc_0_iff any_in_def

lemmas re_eval = is_digit_def is_AZ_def is_alpha_def is_space_def is_word_def
  word_boundary_def spaces_year_def str_title_def str_split_def

lemma py_in_map: "py_in k t \<Longrightarrow> py_in (map f k) (map f t)"
proof (induction t)
  case Nil
  then show ?case by simp
next
  case (Cons c t)
  from Cons.prems have "prefix k (c # t) \<or> py_in k t" by simp
  then show ?case
  proof
    assume "prefix k (c # t)"
    then have "prefix (map f k) (map f (c # t))" by (rule map_mono_prefix)
    then show ?thesis by simp
  next
    assume "py_in k t"
    then have "py_in (map f k) (map f t)" by (rule Cons.IH)
    then show ?thesis by simp
  qed
qed

lemma py_in_str_lower: "py_in k t \<Longrightarrow> str_lower k = k \<Longrightarrow> py_in k (str_lower t)"
  using py_in_map [of k t lower_char] by (simp add: str_lower_def)

lemma lower_help_keywords:
  "k \<in> set [''help'', ''commands'', ''what can you do''] \<Longrightarrow> str_lower k = k"
  by (auto simp: str_eval)

lemma upper_eq_iff_lower_eq_char:
  "(upper_char c = upper_char d) = (lower_char c = lower_char d)"
proof -
  have *: "\<And>m n::nat.
      ((if 97 \<le> m \<and> m \<le> 122 then m - 32 else m) = (if 97 \<le> n \<and> n \<le> 122 then n - 32 else n))
    = ((if 65 \<le> m \<and> m \<le> 90 then m + 32 else m) = (if 65 \<le> n \<and> n \<le> 90 then n + 32 else n))"
    by (auto split: if_splits)
  have l: "\<And>x. (of_char (lower_char x) :: nat)
      = (if 65 \<le> (of_char x :: nat) \<and> (of_char x :: nat) \<le> 90 then of_char x + 32 else of_char x)"
    by (simp add: lower_char_def Let_def)
  have u: "\<And>x. (of_char (upper_char x) :: nat)
      = (if 97 \<le> (of_char x :: nat) \<and> (of_char x :: nat) \<le> 122 then of_char x - 32 else of_char x)"
    by (auto simp add: upper_char_def Let_def)
  have "((of_char (upper_char c) :: nat) = of_char (upper_char d))
      = ((of_char (lower_char c) :: nat) = of_char (lower_char d))"
    unfolding l u by (rule *)
  then show ?thesis by (simp only: of_char_eq_iff)
qed

lemma upper_eq_iff_lower_eq: "(str_upper a = str_upper b) = (str_lower a = str_lower b)"
proof (induction a arbitrary: b)
  case Nil
  then show ?case by (simp add: str_upper_def str_lower_def)
next
  case (Cons x a)
  show ?case
  proof (cases b)
    case Nil
    then show ?thesis by (simp add: str_upper_def str_lower_def)
  next
    case (Cons y b')
    with Cons.IH [of b'] show ?thesis
      by (simp add: str_upper_def str_lower_def upper_eq_iff_lower_eq_char)
  qed
qed

lemmas fixture_eval = demo_def chatbot_init_def sorted_by_len_desc_def by_code_of_def
  cse411_def cse100_def eee101_def recording_kg_def Let_def

lemmas kg_eval = failing_lookup_kg_def down_kg_def healthy_kg_def ask_teacher_def ask_code_def
  ask_dept_def dict_get_def

section \<open>Properties of the intent classifier\<close>

lemma help_keyword_gives_help:
  assumes "k \<in> set [''help'', ''commands'', ''what can you do'']"
    and "py_in k text \<or> py_in k (str_lower text)"
  shows "detect_intent text entities = Help"
proof -
  have "py_in k (str_lower text)"
    using assms lower_help_keywords [OF assms(1)] py_in_str_lower [of k "text"] by blast
  with assms(1) have "any_in [''help'', ''commands'', ''what can you do''] (str_lower text)"
    by (auto simp: any_in_def)
  then show ?thesis by (simp add: detect_intent_def)
qed

lemma first_match_split:
  "rules = earlier @ (True, i) # later \<Longrightarrow> \<forall>r \<in> set earlier. \<not> fst r \<Longrightarrow> first_match rules = i"
proof (induction earlier arbitrary: rules)
  case Nil
  then show ?case by simp
next
  case (Cons r earlier)
  obtain c j where r: "r = (c, j)" by (cases r)
  with Cons.prems have "\<not> c" by simp
  with Cons r show ?case by simp
qed

lemma first_match_none: "\<forall>r \<in> set rules. \<not> fst r \<Longrightarrow> first_match rules = Unknown"
  by (induction rules) auto

lemma detect_intent_first_match:
  "detect_intent text entities = first_match (precedence text entities)"
  by (auto simp add: detect_intent_def precedence_def Let_def any_in_def)

text \<open>
  C4. The classifier applies the rules of the precedence list in their fixed order and the
  first rule that matches decides: the intent is that of the first rule of the list whose
  condition holds (a rule decides when no rule before it matches), and \<open>unknown\<close> when
  none matches. In particular an utterance that contains one of the keywords "help",
  "commands", "what can you do", as written or after lowercasing, is classified \<open>help\<close>
  whatever the entities are and whatever else the text contains (for instance "graph",
  "kg" or a course code).
\<close>

theorem detect_intent_precedence:
  "detect_intent text entities = first_match (precedence text entities)
   \<and> (precedence text entities = earlier @ (True, i) # later \<and> (\<forall>r \<in> set earlier. \<not> fst r)
        \<longrightarrow> detect_intent text entities = i)
   \<and> ((\<forall>r \<in> set (precedence text entities). \<not> fst r)
        \<longrightarrow> detect_intent text entities = Unknown)
   \<and> (k \<in> set [''help'', ''commands'', ''what can you do'']
        \<and> (py_in k text \<or> py_in k (str_lower text))
        \<longrightarrow> detect_intent text entities = Help)"
proof (intro conjI impI)
  show "detect_intent text entities = first_match (precedence text entities)"
    by (rule detect_intent_first_match)
next
  assume "precedence text entities = earlier @ (True, i) # later \<and> (\<forall>r \<in> set earlier. \<not> fst r)"
  then show "detect_intent text entities = i"
    unfolding detect_intent_first_match by (elim conjE) (rule first_match_split)
next
  assume "\<forall>r \<in> set (precedence text entities). \<not> fst r"
  then show "detect_intent text entities = Unknown"
    unfolding detect_intent_first_match by (rule first_match_none)
next
  assume "k \<in> set [''help'', ''commands'', ''what can you do'']
      \<and> (py_in k text \<or> py_in k (str_lower text))"
  then show "detect_intent text entities = Help"
    by (elim conjE) (rule help_keyword_gives_help)
qed

theorem detect_intent_precedence_witness:
  "py_in ''graph'' (str_lower ''help me with the graph'')
   \<and> detect_intent ''help me with the graph'' (ask_code ''CSE411'') = Help
   \<and> py_in ''name'' (str_lower ''teacher name of CSE411'')
   \<and> detect_intent ''teacher name of CSE411'' (ask_code ''CSE411'') = Course_teacher
   \<and> detect_intent ''Jane courses in the CSE dept'' (ask_dept ''CSE'') = Dept_courses
   \<and> detect_intent ''good morning'' (ask_dept ''CSE'') = Unknown"
proof -
  have h: "''help'' \<in> set [''help'', ''commands'', ''what can you do'']
      \<and> (py_in ''help'' ''help me with the graph''
           \<or> py_in ''help'' (str_lower ''help me with the graph''))"
    by simp
  have a: "detect_intent ''help me with the graph'' (ask_code ''CSE411'') = Help"
    using h detect_intent_precedence [of "''help me with the graph''" "ask_code ''CSE411''"
        "[]" Help "[]" "''help''"]
    by blast
  have p: "precedence ''teacher name of CSE411'' (ask_code ''CSE411'')
      = [(False, Help), (False, Graph_show)] @ (True, Course_teacher)
        # [(True, Course_title), (False, Course_credit), (False, Course_semester),
           (True, Course_info), (False, Teacher_courses), (False, Dept_courses),
           (False, Semester_courses)]"
    by (simp add: precedence_def Let_def kg_eval str_eval)
  have b: "detect_intent ''teacher name of CSE411'' (ask_code ''CSE411'') = Course_teacher"
    using p detect_intent_precedence [of "''teacher name of CSE411''" "ask_code ''CSE411''"
        "[(False, Help), (False, Graph_show)]" Course_teacher
        "[(True, Course_title), (False, Course_credit), (False, Course_semester),
          (True, Course_info), (False, Teacher_courses), (False, Dept_courses),
          (False, Semester_courses)]" "''help''"]
    by simp
  have q: "precedence ''Jane courses in the CSE dept'' (ask_dept ''CSE'')
      = [(False, Help), (False, Graph_show), (False, Course_teacher), (False, Course_title),
         (False, Course_credit), (False, Course_semester), (False, Course_info),
         (False, Teacher_courses)] @ (True, Dept_courses) # [(False, Semester_courses)]"
    by (simp add: precedence_def Let_def kg_eval str_eval)
  have c: "detect_intent ''Jane courses in the CSE dept'' (ask_dept ''CSE'') = Dept_courses"
    using q detect_intent_precedence [of "''Jane courses in the CSE dept''" "ask_dept ''CSE''"
        "[(False, Help), (False, Graph_show), (False, Course_teacher), (False, Course_title),
          (False, Course_credit), (False, Course_semester), (False, Course_info),
          (False, Teacher_courses)]" Dept_courses "[(False, Semester_courses)]" "''help''"]
    by simp
  have n: "\<forall>r \<in> set (precedence ''good morning'' (ask_dept ''CSE'')). \<not> fst r"
    by (simp add: precedence_def Let_def kg_eval str_eval)
  have d: "detect_intent ''good morning'' (ask_dept ''CSE'') = Unknown"
    using n detect_intent_precedence [of "''good morning''" "ask_dept ''CSE''" "[]" Help "[]"
        "''help''"]
    by blast
  have e: "py_in ''graph'' (str_lower ''help me with the graph'')
      \<and> py_in ''name'' (str_lower ''teacher name of CSE411'')"
    by (simp add: str_eval)
  from a b c d e show ?thesis by blast
qed

text \<open>
  C9. Keywords are found by substring containment in the lowercased text, not by words:
  a text whose lowercased form contains "graph" or "kg" anywhere (as "background" does)
  and no help keyword is classified \<open>graph_show\<close>, and a text whose lowercased form
  contains "help" anywhere (as "helpful" does) is classified \<open>help\<close>.
\<close>

theorem detect_intent_substring:
  "(py_in ''help'' (str_lower text) \<longrightarrow> detect_intent text entities = Help)
   \<and> (\<not> any_in [''help'', ''commands'', ''what can you do''] (str_lower text)
        \<and> (py_in ''graph'' (str_lower text) \<or> py_in ''kg'' (str_lower text))
      \<longrightarrow> detect_intent text entities = Graph_show)"
  by (simp add: detect_intent_def any_in_def)

theorem detect_intent_substring_witness:
  "detect_intent ''a helpful hint'' [] = Help
   \<and> detect_intent ''my background'' [] = Graph_show
   \<and> \<not> py_in ''graph'' (str_lower ''my background'')"
  using detect_intent_substring [of "''a helpful hint''" "[]"]
    detect_intent_substring [of "''my background''" "[]"]
  by (simp add: str_eval)

section \<open>Properties of the reply builder\<close>

lemma build_reply_unfold:
  "build_reply self i entities w =
     reply_for self i entities (fst (fst (kg_status self w)))
       (if kg self \<noteq> None \<and> \<not> fst (fst (kg_status self w)) then advisory else [])
       (snd (kg_status self w))"
  by (simp add: build_reply_def split: prod.splits)

lemma kg_status_calls: "snd (kg_status self w) = after_calls self [Health] w"
  by (simp add: kg_status_def after_calls_def split: option.splits)

lemma kg_status_None: "kg self = None \<Longrightarrow> \<not> fst (fst (kg_status self w))"
  by (simp add: kg_status_def)

lemma kg_lookup_down: "kg self = None \<or> \<not> ok \<Longrightarrow> kg_lookup self ok q w = ([], w)"
  by (auto simp: kg_lookup_def split: option.splits)

lemma upsert_rows_down: "kg self = None \<or> \<not> ok \<Longrightarrow> upsert_rows self ok rows w = w"
  by (induction rows arbitrary: w) (auto simp: try_upsert_def split: option.splits)

lemma catalog_rows_codes: "map code (catalog_rows keep cs) = map course (filter keep cs)"
  by (simp add: catalog_rows_def comp_def)

lemma catalog_rows_Nil: "(catalog_rows keep cs = []) = (filter keep cs = [])"
  by (simp add: catalog_rows_def)

lemma build_reply_not_found:
  assumes "i \<in> set single_course"
    and "get_course self (dict_get entities ''course_code'') = None"
  shows "build_reply self i entities w = (not_found, snd (kg_status self w))"
  using assms by (auto simp: single_course_def build_reply_def split: prod.splits)

lemma reply_for_lookup_down:
  assumes "i \<in> set lookup_intents"
    and "dict_get entities (entity_key i) = Some v" and "v \<noteq> []"
    and "kg self = None \<or> \<not> ok"
  shows "reply_for self i entities ok warning w =
     (if catalog_filter i v (data self) = [] then none_found i
      else listing i v (map course (catalog_filter i v (data self))) @ warning, w)"
proof -
  have k: "\<And>q. kg_lookup self ok q w = ([], w)"
    using assms(4) by (rule kg_lookup_down)
  have u: "\<And>rows. upsert_rows self ok rows w = w"
    using assms(4) by (rule upsert_rows_down)
  from assms(1) consider "i = Teacher_courses" | "i = Dept_courses" | "i = Semester_courses"
    by (auto simp: lookup_intents_def)
  then show ?thesis
  proof cases
    case 1
    with assms(2,3) show ?thesis
      by (simp add: k u catalog_rows_codes catalog_rows_Nil)
  next
    case 2
    with assms(2,3) show ?thesis
      by (simp add: k u catalog_rows_codes catalog_rows_Nil same_ignoring_case_def
          upper_eq_iff_lower_eq)
  next
    case 3
    with assms(2,3) show ?thesis
      by (simp add: k u catalog_rows_codes catalog_rows_Nil same_ignoring_case_def)
  qed
qed

lemma reply_for_down_world:
  "kg self = None \<or> \<not> ok \<Longrightarrow> snd (reply_for self i entities ok warning w) = w"
  by (cases i)
    (auto simp: kg_lookup_down upsert_rows_down try_upsert_def Let_def
      split: option.splits)

lemma no_upsert_when_down:
  assumes "kg self = None \<or> \<not> fst (fst (kg_status self w))"
  shows "snd (build_reply self i entities w) = after_calls self [Health] w"
  unfolding build_reply_unfold
  using reply_for_down_world [OF assms] by (simp add: kg_status_calls)

lemma upsert_rows_fold:
  "kg self = Some g \<Longrightarrow>
   upsert_rows self True rows w = fold (call_kg g) (map Upsert (resolved self rows)) w"
proof (induction rows arbitrary: w)
  case Nil
  then show ?case by (simp add: resolved_def List.map_filter_simps)
next
  case (Cons r rows)
  then show ?case
    by (cases "by_code self (str_upper (code r))")
      (simp_all add: resolved_def List.map_filter_simps try_upsert_def)
qed

lemma single_course_upsert:
  assumes "i \<in> set single_course"
    and "get_course self (dict_get entities ''course_code'') = Some c"
    and "kg self = Some g" and "fst (fst (health g w))"
  shows "snd (build_reply self i entities w) = fold (call_kg g) [Health, Upsert c] w"
  using assms
  by (auto simp: single_course_def build_reply_unfold kg_status_def try_upsert_def)

lemma kg_lookup_up:
  "kg self = Some g \<Longrightarrow> kg_lookup self True q w = (fst (fst (q g w)), snd (q g w))"
  by (simp add: kg_lookup_def)

lemma catalog_rows_filter:
  "catalog_rows keep cs = map (\<lambda>c. \<lparr> code = course c, row_title = title c \<rparr>) (filter keep cs)"
  by (simp add: catalog_rows_def)

lemma reply_for_lookup_up:
  assumes "i \<in> set lookup_intents"
    and "dict_get entities (entity_key i) = Some v" and "v \<noteq> []"
    and "kg self = Some g"
  shows "reply_for self i entities True warning w =
     (let rows = result_rows self i v (fst (kg_answer g i v w)) in
      (if rows = [] then none_found i else listing i v (map code rows) @ warning,
       fold (call_kg g) (lookup_call i v # map Upsert (resolved self rows)) w))"
proof -
  from assms(1) consider "i = Teacher_courses" | "i = Dept_courses" | "i = Semester_courses"
    by (auto simp: lookup_intents_def)
  then show ?thesis
  proof cases
    case 1
    with assms(2,3) show ?thesis
      by (simp add: kg_lookup_up [OF assms(4)] upsert_rows_fold [OF assms(4)] result_rows_def
          catalog_rows_filter Let_def resolved_def List.map_filter_simps)
  next
    case 2
    with assms(2,3) show ?thesis
      by (simp add: kg_lookup_up [OF assms(4)] upsert_rows_fold [OF assms(4)] result_rows_def
          catalog_rows_filter Let_def resolved_def List.map_filter_simps
          same_ignoring_case_def upper_eq_iff_lower_eq)
  next
    case 3
    with assms(2,3) show ?thesis
      by (simp add: kg_lookup_up [OF assms(4)] upsert_rows_fold [OF assms(4)] result_rows_def
          catalog_rows_filter Let_def resolved_def List.map_filter_simps
          same_ignoring_case_def)
  qed
qed

lemma lookup_upsert:
  assumes "i \<in> set lookup_intents"
    and "dict_get entities (entity_key i) = Some v" and "v \<noteq> []"
    and "kg self = Some g" and "fst (fst (health g w))"
  shows "snd (build_reply self i entities w) =
     fold (call_kg g)
       ([Health, lookup_call i v]
        @ map Upsert (resolved self
            (result_rows self i v (fst (kg_answer g i v (snd (health g w)))))))
       w"
proof -
  have s: "kg_status self w = health g w" using assms(4) by (simp add: kg_status_def)
  show ?thesis
    unfolding build_reply_unfold s using assms(5)
    by (simp add: reply_for_lookup_up [OF assms(1-4)] Let_def)
qed

lemma reply_ignores_upsert:
  "fst (build_reply (self\<lparr>kg := Some (g\<lparr>upsert_course := u\<rparr>)\<rparr>) i entities w)
   = fst (build_reply (self\<lparr>kg := Some g\<rparr>) i entities w)"
  unfolding build_reply_unfold
  by (cases i)
    (auto simp: kg_status_def kg_lookup_def get_course_def Let_def
      split: option.splits prod.splits)

lemma single_reply_suffix:
  assumes "i \<in> set single_course"
    and "get_course self (dict_get entities ''course_code'') = Some c"
  shows "suffix warning (fst (reply_for self i entities ok warning w))"
  using assms by (auto simp: single_course_def suffix_def)

text \<open>
  C1. For a lookup intent (\<open>teacher_courses\<close>, \<open>dept_courses\<close>, \<open>semester_courses\<close>) whose
  entity is present, when the Graph Index is absent or its health probe fails, the reply
  lists exactly the codes of the catalog records that the direct filter selects (teacher by
  exact name, department and semester without regard to case), in catalog order; when the
  filter selects nothing the reply is the fixed "no courses found" text.
\<close>

theorem fallback_equals_catalog_filter:
  assumes "i \<in> set lookup_intents"
    and "dict_get entities (entity_key i) = Some v" and "v \<noteq> []"
    and "kg self = None \<or> \<not> fst (fst (kg_status self w))"
  shows "fst (build_reply self i entities w) =
     (if catalog_filter i v (data self) = [] then none_found i
      else listing i v (map course (catalog_filter i v (data self)))
           @ (if kg self = None then [] else advisory))"
proof -
  from assms(4) have d: "kg self = None \<or> \<not> fst (fst (kg_status self w))" .
  from assms(4) have n: "\<not> fst (fst (kg_status self w))"
    by (auto simp: kg_status_def)
  show ?thesis
    unfolding build_reply_unfold reply_for_lookup_down [OF assms(1-3) d]
    using n by simp
qed

theorem fallback_equals_catalog_filter_witness:
  "fst (build_reply (demo None) Dept_courses
         [(''course_code'', None), (''teacher'', None), (''dept'', Some ''CSE''),
          (''semester'', None)] ())
   = ''CSE department er courses: CSE411, CSE100. (Courses in CSE department: CSE411, CSE100.)''"
  using fallback_equals_catalog_filter [of Dept_courses
      "[(''course_code'', None), (''teacher'', None), (''dept'', Some ''CSE''),
        (''semester'', None)]" "''CSE''" "demo None" "()"]
  by (simp add: lookup_intents_def dict_get_def fixture_eval same_ignoring_case_def str_eval)

text \<open>
  C7. For a single-course intent whose course code is not in the catalog, \<open>build_reply\<close>
  returns the fixed not-found reply and leaves the world as the health probe left it, so
  no upsert is issued; \<open>process\<close> returns that reply together with the intent it detected.
\<close>

theorem unknown_code_not_found:
  assumes "i \<in> set single_course"
    and "get_course self (dict_get entities ''course_code'') = None"
  shows "build_reply self i entities w
           = (''Course code not found. (No matching course.)'', after_calls self [Health] w)
         \<and> (detect_intent txt (extract_entities self txt) = i
              \<and> extract_entities self txt = entities
            \<longrightarrow> process self txt w
                  = ((''Course code not found. (No matching course.)'', i, entities),
                     after_calls self [Health] w))"
  using build_reply_not_found [OF assms, of w]
  by (auto simp add: process_def kg_status_calls not_found_def Let_def)

theorem unknown_code_not_found_witness:
  "process (demo (Some (recording_kg (True, None) ([], None) (True, None)))) ''who teaches ZZZ999'' []
     = ((''Course code not found. (No matching course.)'', Course_teacher,
         [(''course_code'', Some ''ZZZ999''), (''teacher'', None), (''dept'', None), (''semester'', None)]),
        [Health])"
proof -
  let ?self = "demo (Some (recording_kg (True, None) ([], None) (True, None)))"
  have e: "extract_entities ?self ''who teaches ZZZ999'' = [(''course_code'', Some ''ZZZ999''), (''teacher'', None), (''dept'', None), (''semester'', None)]"
    by (simp add: extract_entities_def fixture_eval str_eval re_eval)
  have d: "detect_intent ''who teaches ZZZ999'' [(''course_code'', Some ''ZZZ999''), (''teacher'', None), (''dept'', None), (''semester'', None)] = Course_teacher"
    by (simp add: detect_intent_def dict_get_def str_eval)
  have g: "get_course ?self (dict_get [(''course_code'', Some ''ZZZ999''), (''teacher'', None), (''dept'', None), (''semester'', None)] ''course_code'') = None"
    by (simp add: get_course_def dict_get_def fixture_eval str_eval)
  have a: "after_calls ?self [Health] [] = [Health]"
    by (simp add: after_calls_def fixture_eval)
  show ?thesis
    using unknown_code_not_found [of Course_teacher ?self _ "[]" "''who teaches ZZZ999''", OF _ g] e d a
    by (simp add: single_course_def)
qed

text \<open>
  C2. Write-through. With a configured Graph Index whose health probe succeeds, a
  single-course request that resolves a record issues the health probe and then the
  upsert of that record; a lookup request issues the probe, the lookup, and then one
  upsert for every row of its result list that resolves to a catalog record. When the
  Graph Index is not configured or the probe fails, the health probe is the only call,
  so no upsert is issued. Whatever the upsert operation returns or does, the reply text
  is the same.
\<close>

theorem write_through:
  "(i \<in> set single_course \<and> get_course self (dict_get entities ''course_code'') = Some c
      \<and> kg self = Some g \<and> fst (fst (health g w))
    \<longrightarrow> snd (build_reply self i entities w) = fold (call_kg g) [Health, Upsert c] w)
   \<and> (i \<in> set lookup_intents \<and> dict_get entities (entity_key i) = Some v \<and> v \<noteq> []
      \<and> kg self = Some g \<and> fst (fst (health g w))
    \<longrightarrow> snd (build_reply self i entities w)
        = fold (call_kg g)
            ([Health, lookup_call i v]
             @ map Upsert (resolved self
                 (result_rows self i v (fst (kg_answer g i v (snd (health g w)))))))
            w)
   \<and> (kg self = None \<or> \<not> fst (fst (kg_status self w))
    \<longrightarrow> snd (build_reply self i entities w) = after_calls self [Health] w)
   \<and> fst (build_reply (self\<lparr>kg := Some (g\<lparr>upsert_course := u\<rparr>)\<rparr>) i entities w)
     = fst (build_reply (self\<lparr>kg := Some g\<rparr>) i entities w)"
proof (intro conjI impI)
  assume "i \<in> set single_course \<and> get_course self (dict_get entities ''course_code'') = Some c
      \<and> kg self = Some g \<and> fst (fst (health g w))"
  then show "snd (build_reply self i entities w) = fold (call_kg g) [Health, Upsert c] w"
    by (elim conjE) (rule single_course_upsert)
next
  assume "i \<in> set lookup_intents \<and> dict_get entities (entity_key i) = Some v \<and> v \<noteq> []
      \<and> kg self = Some g \<and> fst (fst (health g w))"
  then show "snd (build_reply self i entities w)
        = fold (call_kg g)
            ([Health, lookup_call i v]
             @ map Upsert (resolved self
                 (result_rows self i v (fst (kg_answer g i v (snd (health g w)))))))
            w"
    by (elim conjE) (rule lookup_upsert)
next
  assume "kg self = None \<or> \<not> fst (fst (kg_status self w))"
  then show "snd (build_reply self i entities w) = after_calls self [Health] w"
    by (rule no_upsert_when_down)
next
  show "fst (build_reply (self\<lparr>kg := Some (g\<lparr>upsert_course := u\<rparr>)\<rparr>) i entities w)
     = fst (build_reply (self\<lparr>kg := Some g\<rparr>) i entities w)"
    by (rule reply_ignores_upsert)
qed

theorem write_through_witness:
  "snd (build_reply (demo (Some healthy_kg)) Course_teacher (ask_code ''CSE411'') [])
     = [Health, Upsert cse411]
   \<and> snd (build_reply (demo (Some healthy_kg)) Dept_courses (ask_dept ''CSE'') [])
     = [Health, By_dept ''CSE'', Upsert cse411, Upsert cse100]
   \<and> snd (build_reply (demo (Some down_kg)) Course_teacher (ask_code ''CSE411'') [])
     = [Health]"
proof -
  have a: "get_course (demo (Some healthy_kg)) (dict_get (ask_code ''CSE411'') ''course_code'')
      = Some cse411"
    by (simp add: get_course_def kg_eval fixture_eval str_eval)
  have b: "resolved (demo (Some healthy_kg))
      (result_rows (demo (Some healthy_kg)) Dept_courses ''CSE''
        (fst (kg_answer healthy_kg Dept_courses ''CSE'' (snd (health healthy_kg [])))))
      = [cse411, cse100]"
    by (simp add: resolved_def result_rows_def List.map_filter_simps same_ignoring_case_def
        kg_eval fixture_eval str_eval)
  have c: "\<not> fst (fst (kg_status (demo (Some down_kg)) []))"
    by (simp add: kg_status_def kg_eval fixture_eval)
  show ?thesis
    using write_through [of Course_teacher "demo (Some healthy_kg)" "ask_code ''CSE411''"
        cse411 healthy_kg "[]"]
      write_through [of Dept_courses "demo (Some healthy_kg)" "ask_dept ''CSE''" _ healthy_kg
        "[]" "''CSE''"]
      write_through [of Course_teacher "demo (Some down_kg)" "ask_code ''CSE411''" _ _ "[]"]
      a b c
    by (simp add: single_course_def lookup_intents_def after_calls_def kg_eval fixture_eval)
qed

text \<open>
  C3, as the claim states it, fails: with a healthy probe and a lookup call that fails
  (an empty list with error text), the reply about the resolved course carries no
  advisory suffix.
\<close>

theorem advisory_after_failed_lookup_counterexample:
  "fst (fst (health failing_lookup_kg []))
   \<and> fst (get_courses_by_teacher failing_lookup_kg ''Dr. A'' [Health])
       = ([], Some ''ServiceUnavailable'')
   \<and> fst (build_reply (demo (Some failing_lookup_kg)) Teacher_courses (ask_teacher ''Dr. A'') [])
       = ''Dr. A er courses: CSE411. (Courses taught by Dr. A: CSE411.)''
   \<and> \<not> suffix '' Neo4j down, dataset result dekhacchi.''
          (fst (build_reply (demo (Some failing_lookup_kg)) Teacher_courses
                  (ask_teacher ''Dr. A'') []))"
  by (simp add: build_reply_unfold kg_status_def kg_lookup_def catalog_rows_def
      suffix_to_prefix kg_eval fixture_eval)

text \<open>
  C3, amended. When the Graph Index is configured and the health probe fails, the reply
  of a single-course intent that resolves a course, and of a lookup intent whose catalog
  filter selects a course, ends with the fixed advisory suffix, and the lookup lists the
  catalog filter's codes. When the probe succeeds and the lookup returns no rows (as a
  failed lookup does), the reply is built from the catalog filter and has no suffix.
\<close>

theorem advisory_when_probe_fails:
  "(kg self = Some g \<and> \<not> fst (fst (health g w)) \<and> i \<in> set single_course
      \<and> get_course self (dict_get entities ''course_code'') = Some c
    \<longrightarrow> suffix '' Neo4j down, dataset result dekhacchi.'' (fst (build_reply self i entities w)))
   \<and> (kg self = Some g \<and> \<not> fst (fst (health g w)) \<and> i \<in> set lookup_intents
      \<and> dict_get entities (entity_key i) = Some v \<and> v \<noteq> []
      \<and> catalog_filter i v (data self) \<noteq> []
    \<longrightarrow> fst (build_reply self i entities w)
        = listing i v (map course (catalog_filter i v (data self)))
          @ '' Neo4j down, dataset result dekhacchi.'')
   \<and> (kg self = Some g \<and> fst (fst (health g w)) \<and> i \<in> set lookup_intents
      \<and> dict_get entities (entity_key i) = Some v \<and> v \<noteq> []
      \<and> fst (kg_answer g i v (snd (health g w))) = []
    \<longrightarrow> fst (build_reply self i entities w)
        = (if catalog_filter i v (data self) = [] then none_found i
           else listing i v (map course (catalog_filter i v (data self)))))"
proof (intro conjI impI)
  assume h: "kg self = Some g \<and> \<not> fst (fst (health g w)) \<and> i \<in> set single_course
      \<and> get_course self (dict_get entities ''course_code'') = Some c"
  then have "kg_status self w = health g w" by (simp add: kg_status_def)
  with h show "suffix '' Neo4j down, dataset result dekhacchi.''
      (fst (build_reply self i entities w))"
    unfolding build_reply_unfold
    using single_reply_suffix [of i self entities c advisory False "snd (health g w)"]
    by (simp add: advisory_def)
next
  assume h: "kg self = Some g \<and> \<not> fst (fst (health g w)) \<and> i \<in> set lookup_intents
      \<and> dict_get entities (entity_key i) = Some v \<and> v \<noteq> []
      \<and> catalog_filter i v (data self) \<noteq> []"
  then have s: "kg_status self w = health g w" by (simp add: kg_status_def)
  from h have d: "kg self = None \<or> \<not> fst (fst (kg_status self w))" by (simp add: s)
  from h show "fst (build_reply self i entities w)
      = listing i v (map course (catalog_filter i v (data self)))
        @ '' Neo4j down, dataset result dekhacchi.''"
    unfolding build_reply_unfold s
    by (simp add: reply_for_lookup_down advisory_def)
next
  assume h: "kg self = Some g \<and> fst (fst (health g w)) \<and> i \<in> set lookup_intents
      \<and> dict_get entities (entity_key i) = Some v \<and> v \<noteq> []
      \<and> fst (kg_answer g i v (snd (health g w))) = []"
  then have s: "kg_status self w = health g w" by (simp add: kg_status_def)
  from h have r: "reply_for self i entities True [] (snd (health g w)) =
     (let rows = result_rows self i v (fst (kg_answer g i v (snd (health g w)))) in
      (if rows = [] then none_found i else listing i v (map code rows) @ [],
       fold (call_kg g) (lookup_call i v # map Upsert (resolved self rows)) (snd (health g w))))"
    using reply_for_lookup_up [of i entities v self g "[]" "snd (health g w)"] by simp
  from h show "fst (build_reply self i entities w)
      = (if catalog_filter i v (data self) = [] then none_found i
         else listing i v (map course (catalog_filter i v (data self))))"
    unfolding build_reply_unfold s
    by (simp add: r result_rows_def Let_def comp_def)
qed

theorem advisory_when_probe_fails_witness:
  "suffix '' Neo4j down, dataset result dekhacchi.''
     (fst (build_reply (demo (Some down_kg)) Course_teacher (ask_code ''CSE411'') []))
   \<and> fst (build_reply (demo (Some down_kg)) Teacher_courses (ask_teacher ''Dr. A'') [])
     = ''Dr. A er courses: CSE411. (Courses taught by Dr. A: CSE411.) Neo4j down, dataset result dekhacchi.''
   \<and> fst (build_reply (demo (Some failing_lookup_kg)) Teacher_courses (ask_teacher ''Dr. A'') [])
     = ''Dr. A er courses: CSE411. (Courses taught by Dr. A: CSE411.)''"
proof -
  have a: "get_course (demo (Some down_kg)) (dict_get (ask_code ''CSE411'') ''course_code'')
      = Some cse411"
    by (simp add: get_course_def kg_eval fixture_eval str_eval)
  have f: "catalog_filter Teacher_courses ''Dr. A'' (data (demo (Some g))) = [cse411]" for g :: "(kg_call list) kg_client"
    by (simp add: fixture_eval)
  show ?thesis
    using advisory_when_probe_fails [of "demo (Some down_kg)" down_kg "[]" Course_teacher
        "ask_code ''CSE411''" cse411]
      advisory_when_probe_fails [of "demo (Some down_kg)" down_kg "[]" Teacher_courses
        "ask_teacher ''Dr. A''" _ "''Dr. A''"]
      advisory_when_probe_fails [of "demo (Some failing_lookup_kg)" failing_lookup_kg "[]"
        Teacher_courses "ask_teacher ''Dr. A''" _ "''Dr. A''"]
      a f
    by (simp add: single_course_def lookup_intents_def kg_eval fixture_eval)
qed

section \<open>Properties of the entity extractor\<close>

lemma set_order_remdups: "set_order remdups"
  by (simp add: set_order_def)

lemma split_from_nonempty: "cur \<noteq> [] \<Longrightarrow> split_from cur s \<noteq> []"
  by (induction s arbitrary: cur) auto

lemma str_split_nonempty: "\<not> is_space c \<Longrightarrow> str_split (c # s) \<noteq> []"
  by (simp add: str_split_def split_from_nonempty)

lemma literal_ci_first:
  "literal_ci (p # ps) s = Some (m, rest) \<Longrightarrow> \<exists>c m'. m = c # m' \<and> lower_char c = lower_char p"
  by (cases s) (auto split: if_splits option.splits)

lemma season_not_space:
  assumes "lower_char c = lower_char p" and "p \<in> set ''SFAW''"
  shows "\<not> is_space c"
proof
  assume "is_space c"
  then have "lower_char c = c" by (auto simp: is_space_def lower_char_def Let_def)
  with assms have "c \<in> set ''sfaw''" by (auto simp: str_eval)
  with \<open>is_space c\<close> show False by (auto simp: is_space_def)
qed

lemma semester_at_split:
  "semester_at seasons s = Some (g1, g0) \<Longrightarrow> \<forall>n \<in> set seasons. n \<noteq> [] \<and> hd n \<in> set ''SFAW''
   \<Longrightarrow> str_split g0 \<noteq> []"
proof (induction seasons)
  case Nil
  then show ?case by simp
next
  case (Cons n seasons)
  then obtain p ps where n: "n = p # ps" and p: "p \<in> set ''SFAW''"
    by (cases n) auto
  show ?case
  proof (cases "literal_ci n s")
    case None
    with Cons show ?thesis by simp
  next
    case (Some mr)
    obtain m rest where mr: "mr = (m, rest)" by (cases mr)
    show ?thesis
    proof (cases "spaces_year rest")
      case None
      with Some mr Cons show ?thesis by simp
    next
      case (Some sy)
      with \<open>literal_ci n s = Some mr\<close> mr Cons.prems(1) have g0: "g0 = m @ sy" by auto
      from \<open>literal_ci n s = Some mr\<close> mr n obtain c m' where "m = c # m'" "lower_char c = lower_char p"
        using literal_ci_first by blast
      with p g0 show ?thesis
        using season_not_space [of c p] str_split_nonempty [of c "m' @ sy"] by simp
    qed
  qed
qed

lemma semester_search_split:
  "semester_search prev s = Some (g1, g0) \<Longrightarrow> str_split g0 \<noteq> []"
proof (induction s arbitrary: prev)
  case Nil
  then show ?case by simp
next
  case (Cons c cs)
  show ?case
  proof (cases "if word_boundary prev (Some c)
      then semester_at [''Spring'', ''Summer'', ''Fall'', ''Autumn'', ''Winter''] (c # cs) else None")
    case None
    with Cons show ?thesis by simp
  next
    case (Some m)
    with Cons.prems have "semester_at [''Spring'', ''Summer'', ''Fall'', ''Autumn'', ''Winter''] (c # cs) = Some (g1, g0)"
      by (simp split: if_splits)
    then show ?thesis by (rule semester_at_split) simp
  qed
qed

text \<open>
  C10. For every text, \<open>extract_entities\<close> returns the dictionary with exactly the four
  keys \<open>course_code\<close>, \<open>teacher\<close>, \<open>dept\<close>, \<open>semester\<close>, each value a string or \<open>None\<close>
  (the value type of the dictionary), and the entity bundle that \<open>process\<close> returns has
  the same four keys.
\<close>

theorem entities_have_four_keys:
  "map fst (extract_entities self text) = [''course_code'', ''teacher'', ''dept'', ''semester'']
   \<and> map fst (snd (snd (fst (process self text w))))
       = [''course_code'', ''teacher'', ''dept'', ''semester'']"
  by (simp add: extract_entities_def process_def Let_def split: prod.splits)

lemma py_in_length: "py_in a b \<Longrightarrow> length a \<le> length b"
proof (induction b)
  case Nil
  then show ?case by simp
next
  case (Cons y ys)
  then show ?case by (auto dest: prefix_length_le)
qed

lemma py_in_same_length: "py_in a b \<Longrightarrow> length a = length b \<Longrightarrow> a = b"
proof (cases b)
  case Nil
  assume "py_in a b" with Nil show ?thesis by simp
next
  case (Cons y ys)
  assume a: "py_in a b" and l: "length a = length b"
  from a Cons have "prefix a (y # ys) \<or> py_in a ys" by simp
  then show ?thesis
  proof
    assume "prefix a (y # ys)"
    then obtain zs where "y # ys = a @ zs" by (auto simp: prefix_def)
    with l Cons show ?thesis by (metis append_eq_append_conv append_Nil2)
  next
    assume "py_in a ys"
    then have "length a \<le> length ys" by (rule py_in_length)
    with l Cons show ?thesis by simp
  qed
qed

lemma match_from_list_longest:
  assumes "sorted_wrt (\<lambda>a b. length b \<le> length a) cs"
    and "c \<in> set cs" and "py_in (str_lower c) t"
  shows "\<exists>r. match_from_list t cs = Some r \<and> r \<in> set cs \<and> py_in (str_lower r) t
           \<and> length c \<le> length r"
  using assms
proof (induction cs)
  case Nil
  then show ?case by simp
next
  case (Cons x xs)
  show ?case
  proof (cases "py_in (str_lower x) t")
    case True
    with Cons.prems show ?thesis by auto
  next
    case False
    with Cons.prems have "c \<in> set xs" by auto
    moreover from Cons.prems have "sorted_wrt (\<lambda>a b. length b \<le> length a) xs" by simp
    ultimately obtain r where "match_from_list t xs = Some r" "r \<in> set xs"
      "py_in (str_lower r) t" "length c \<le> length r"
      using Cons.IH Cons.prems(3) by blast
    with False show ?thesis by simp
  qed
qed

lemma sorted_by_len_desc_sorted:
  "sorted_wrt (\<lambda>a b. length b \<le> length a) (sorted_by_len_desc xs)"
proof -
  have "sorted (map (\<lambda>s. - int (length s)) (sort_key (\<lambda>s. - int (length s)) xs))"
    by (rule sorted_sort_key)
  then show ?thesis
    by (simp add: sorted_by_len_desc_def sorted_map)
qed

lemma set_sorted_by_len_desc: "set (sorted_by_len_desc xs) = set xs"
  by (simp add: sorted_by_len_desc_def)

lemma teacher_names_init:
  "set_order iter \<Longrightarrow> set (teacher_names (chatbot_init iter cs g)) = teacher ` set cs"
  by (simp add: chatbot_init_def Let_def set_sorted_by_len_desc set_order_def)

lemma teacher_names_sorted:
  "sorted_wrt (\<lambda>a b. length b \<le> length a) (teacher_names (chatbot_init iter cs g))"
  by (simp add: chatbot_init_def Let_def sorted_by_len_desc_sorted)

lemma teacher_entity:
  "dict_get (extract_entities self text) ''teacher''
     = match_from_list (str_lower text) (teacher_names self)"
  by (simp add: extract_entities_def dict_get_def Let_def)

text \<open>
  C6, as the claim states it, fails: with the catalog teachers "Jane", "Jane Smith" and
  "Dr. Bob Stone" and a text that contains all three, the extractor returns
  "Dr. Bob Stone", not the longer of "Jane" and "Jane Smith".
\<close>

theorem longer_teacher_counterexample:
  "py_in ''Jane'' ''Jane Smith''
   \<and> py_in (str_lower ''Jane'') (str_lower ''is it jane smith or dr. bob stone'')
   \<and> py_in (str_lower ''Jane Smith'') (str_lower ''is it jane smith or dr. bob stone'')
   \<and> dict_get (extract_entities (demo_wide None :: unit chatbot) ''is it jane smith or dr. bob stone'') ''teacher''
       = Some ''Dr. Bob Stone''"
  by (simp add: teacher_entity demo_wide_def phy201_def fixture_eval str_eval)

text \<open>
  C6, amended. For every order in which the set of names is iterated: when the text
  contains, without regard to case, two catalog teacher names of which one is a proper
  substring of the other, the extractor returns a catalog teacher name that the text
  contains and that is at least as long as the longer of the two, never the shorter one;
  it returns the longer one whenever every other catalog teacher name in the text is
  shorter than it.
\<close>

theorem longest_teacher_match:
  assumes "set_order iter"
    and "n1 \<in> teacher ` set cs" and "n2 \<in> teacher ` set cs"
    and "py_in n1 n2" and "n1 \<noteq> n2"
    and "py_in (str_lower n1) (str_lower text)" and "py_in (str_lower n2) (str_lower text)"
  shows "\<exists>r. dict_get (extract_entities (chatbot_init iter cs g) text) ''teacher'' = Some r
           \<and> r \<in> teacher ` set cs \<and> py_in (str_lower r) (str_lower text)
           \<and> length n2 \<le> length r \<and> r \<noteq> n1
           \<and> ((\<forall>n \<in> teacher ` set cs.
                  n \<noteq> n2 \<and> py_in (str_lower n) (str_lower text) \<longrightarrow> length n < length n2)
                \<longrightarrow> r = n2)"
proof -
  let ?self = "chatbot_init iter cs g"
  have names: "set (teacher_names ?self) = teacher ` set cs"
    using assms(1) by (rule teacher_names_init)
  from assms(3) names have "n2 \<in> set (teacher_names ?self)" by simp
  with teacher_names_sorted [of iter cs g] assms(7)
  obtain r where r: "match_from_list (str_lower text) (teacher_names ?self) = Some r"
      "r \<in> set (teacher_names ?self)" "py_in (str_lower r) (str_lower text)"
      "length n2 \<le> length r"
    using match_from_list_longest by blast
  from assms(4) have "length n1 \<le> length n2" by (rule py_in_length)
  moreover from assms(4,5) have "length n1 \<noteq> length n2"
    using py_in_same_length by blast
  ultimately have "length n1 < length n2" by simp
  with r(4) have "r \<noteq> n1" by auto
  with r names show ?thesis
    by (auto simp: teacher_entity)
qed

theorem longest_teacher_match_witness:
  "dict_get (extract_entities (demo None :: unit chatbot) ''what does Jane Smith teach'') ''teacher''
     = Some ''Jane Smith''"
proof -
  have s: "teacher ` set [cse411, eee101, cse100] = {''Dr. A'', ''Jane Smith'', ''Jane''}"
    by (simp add: fixture_eval)
  have "\<exists>r. dict_get (extract_entities (demo None :: unit chatbot) ''what does Jane Smith teach'') ''teacher''
             = Some r \<and> r = ''Jane Smith''"
    using longest_teacher_match [of remdups "''Jane''" "[cse411, eee101, cse100]" "''Jane Smith''"
        "''what does Jane Smith teach''" None]
    unfolding s
    by (auto simp add: set_order_remdups demo_def str_eval)
  then show ?thesis by simp
qed

lemma digit_not_space: "is_digit c \<Longrightarrow> \<not> is_space c"
  by (auto simp: is_digit_def is_space_def Let_def)

lemma length3: "length xs = 3 \<Longrightarrow> \<exists>a b c. xs = [a, b, c]"
  by (cases xs; cases "tl xs"; cases "tl (tl xs)") auto

lemma digits3_iff:
  "(digits3 s = Some g2) =
     (\<exists>rest. s = g2 @ rest \<and> length g2 = 3 \<and> list_all is_digit g2
        \<and> word_boundary (last_char None g2) (first_char rest))"
proof
  assume "digits3 s = Some g2"
  then show "\<exists>rest. s = g2 @ rest \<and> length g2 = 3 \<and> list_all is_digit g2
        \<and> word_boundary (last_char None g2) (first_char rest)"
    by (cases s rule: digits3.cases) (auto split: if_splits)
next
  assume "\<exists>rest. s = g2 @ rest \<and> length g2 = 3 \<and> list_all is_digit g2
        \<and> word_boundary (last_char None g2) (first_char rest)"
  then obtain rest where r: "s = g2 @ rest" "length g2 = 3" "list_all is_digit g2"
      "word_boundary (last_char None g2) (first_char rest)" by blast
  from r(2) obtain a b c where "g2 = [a, b, c]" using length3 by blast
  with r show "digits3 s = Some g2" by simp
qed

lemma code_at_iff:
  "(code_at s = Some (g1, g2)) =
     (\<exists>sp rest. s = g1 @ sp @ g2 @ rest
        \<and> length g1 = 3 \<and> list_all is_AZ g1
        \<and> (sp = [] \<or> (\<exists>x. sp = [x] \<and> is_space x))
        \<and> length g2 = 3 \<and> list_all is_digit g2
        \<and> word_boundary (last_char None g2) (first_char rest))"
  (is "?L = ?R")
proof
  assume l: ?L
  then obtain a b c t where s: "s = a # b # c # t"
    by (cases s rule: code_at.cases) auto
  with l have az: "is_AZ a" "is_AZ b" "is_AZ c" and g1: "g1 = [a, b, c]"
    by (auto split: if_splits option.splits list.splits)
  from l s az have "(\<exists>x t'. t = x # t' \<and> is_space x \<and> digits3 t' = Some g2) \<or> digits3 t = Some g2"
    by (auto split: if_splits option.splits list.splits)
  then show ?R
  proof
    assume "\<exists>x t'. t = x # t' \<and> is_space x \<and> digits3 t' = Some g2"
    then obtain x t' where x: "t = x # t'" "is_space x" "digits3 t' = Some g2" by blast
    from x(3) obtain rest where "t' = g2 @ rest" "length g2 = 3" "list_all is_digit g2"
        "word_boundary (last_char None g2) (first_char rest)"
      unfolding digits3_iff by blast
    with s g1 az x(1,2) show ?R
      by (intro exI [of _ "[x]"] exI [of _ rest]) simp
  next
    assume "digits3 t = Some g2"
    then obtain rest where "t = g2 @ rest" "length g2 = 3" "list_all is_digit g2"
        "word_boundary (last_char None g2) (first_char rest)"
      unfolding digits3_iff by blast
    with s g1 az show ?R
      by (intro exI [of _ "[]"] exI [of _ rest]) simp
  qed
next
  assume ?R
  then obtain sp rest where r: "s = g1 @ sp @ g2 @ rest" "length g1 = 3" "list_all is_AZ g1"
      "sp = [] \<or> (\<exists>x. sp = [x] \<and> is_space x)" "length g2 = 3" "list_all is_digit g2"
      "word_boundary (last_char None g2) (first_char rest)" by blast
  from r(2) obtain a b c where g1: "g1 = [a, b, c]" using length3 by blast
  from r(5) obtain d e f where g2: "g2 = [d, e, f]" using length3 by blast
  have d3: "digits3 (g2 @ rest) = Some g2"
    unfolding digits3_iff using r(5-7) by blast
  from r(4) show ?L
  proof
    assume "sp = []"
    with r g1 g2 d3 show ?L by (simp add: digit_not_space)
  next
    assume "\<exists>x. sp = [x] \<and> is_space x"
    then obtain x where "sp = [x]" "is_space x" by blast
    with r g1 d3 show ?L by simp
  qed
qed

lemma code_here_iff:
  "code_here prev s c =
     (word_boundary prev (first_char s) \<and> (\<exists>g1 g2. code_at s = Some (g1, g2) \<and> c = g1 @ g2))"
  unfolding code_here_def code_at_iff by blast

lemma code_search_Some:
  "code_search prev s = Some m \<Longrightarrow>
   \<exists>p q. s = p @ q \<and> word_boundary (last_char prev p) (first_char q) \<and> code_at q = Some m
      \<and> (\<forall>p' q'. s = p' @ q' \<and> length p' < length p
            \<longrightarrow> \<not> (word_boundary (last_char prev p') (first_char q') \<and> code_at q' \<noteq> None))"
proof (induction s arbitrary: prev)
  case Nil
  then show ?case by simp
next
  case (Cons c cs)
  show ?case
  proof (cases "word_boundary prev (Some c) \<and> code_at (c # cs) \<noteq> None")
    case True
    with Cons.prems have "code_at (c # cs) = Some m" by auto
    with True show ?thesis
      by (intro exI [of _ "[]"] exI [of _ "c # cs"]) simp
  next
    case False
    with Cons.prems have "code_search (Some c) cs = Some m"
      by (auto split: if_splits option.splits)
    from Cons.IH [OF this] obtain p q where pq: "cs = p @ q"
        "word_boundary (last_char (Some c) p) (first_char q)" "code_at q = Some m"
        "\<forall>p' q'. cs = p' @ q' \<and> length p' < length p
            \<longrightarrow> \<not> (word_boundary (last_char (Some c) p') (first_char q') \<and> code_at q' \<noteq> None)"
      by blast
    have "\<forall>p' q'. c # cs = p' @ q' \<and> length p' < length (c # p)
            \<longrightarrow> \<not> (word_boundary (last_char prev p') (first_char q') \<and> code_at q' \<noteq> None)"
    proof (intro allI impI)
      fix p' q'
      assume h: "c # cs = p' @ q' \<and> length p' < length (c # p)"
      show "\<not> (word_boundary (last_char prev p') (first_char q') \<and> code_at q' \<noteq> None)"
      proof (cases p')
        case Nil
        with h False show ?thesis by auto
      next
        case (Cons x p'')
        with h have "cs = p'' @ q'" "length p'' < length p" "x = c" by auto
        with pq(4) Cons show ?thesis by auto
      qed
    qed
    with pq(1-3) show ?thesis
      by (intro exI [of _ "c # p"] exI [of _ q]) simp
  qed
qed

lemma code_search_None:
  "code_search prev s = None \<Longrightarrow> s = p @ q \<Longrightarrow>
   \<not> (word_boundary (last_char prev p) (first_char q) \<and> code_at q \<noteq> None)"
proof (induction s arbitrary: prev p)
  case Nil
  then show ?case by simp
next
  case (Cons c cs)
  show ?case
  proof (cases p)
    case Nil
    with Cons.prems show ?thesis by (auto split: if_splits option.splits)
  next
    case (Cons x p')
    with Cons.prems have "cs = p' @ q" "x = c" "code_search (Some c) cs = None"
      by (auto split: if_splits option.splits)
    with Cons.IH [of "Some c" p'] Cons show ?thesis by simp
  qed
qed

lemma course_code_entity:
  "dict_get (extract_entities self text) ''course_code''
     = (case code_search None (str_upper text) of
          None \<Rightarrow> None | Some (g1, g2) \<Rightarrow> Some (g1 @ g2))"
  by (simp add: extract_entities_def dict_get_def Let_def)

text \<open>
  C5, as the claim states it, fails: the ASCII text "XCSE411" contains three letters
  followed by three digits, "CSE411", but yields no course code, because the three
  letters do not start at a word boundary.
\<close>

theorem course_code_counterexample:
  "is_ascii ''XCSE411''
   \<and> py_in ''CSE411'' (str_upper ''XCSE411'')
   \<and> dict_get (extract_entities (demo None :: unit chatbot) ''XCSE411'') ''course_code'' = None"
  by (simp add: course_code_entity is_ascii_def str_eval re_eval)

text \<open>
  C5, amended. For ASCII text, the course code is the first match, in the uppercased
  text, of three letters at a word boundary, at most one whitespace character, and three
  digits followed by a word boundary; the entity is the letters followed by the digits.
  "cse 411", "CSE411" and "Cse 411" with a single separating space all yield "CSE411".
\<close>

theorem course_code_first_match:
  assumes "is_ascii text"
  shows "(dict_get (extract_entities self text) ''course_code'' = Some c)
     = (\<exists>pre s. str_upper text = pre @ s \<and> code_here (last_char None pre) s c
          \<and> (\<forall>pre' s' c'. str_upper text = pre' @ s' \<and> length pre' < length pre
                \<longrightarrow> \<not> code_here (last_char None pre') s' c'))"
  (is "?L = ?R")
proof
  assume ?L
  then obtain g1 g2 where m: "code_search None (str_upper text) = Some (g1, g2)" "c = g1 @ g2"
    by (auto simp: course_code_entity split: option.splits)
  from code_search_Some [OF m(1)] m(2) show ?R
    unfolding code_here_iff by blast
next
  assume ?R
  then obtain pre s where r: "str_upper text = pre @ s" "code_here (last_char None pre) s c"
      "\<forall>pre' s' c'. str_upper text = pre' @ s' \<and> length pre' < length pre
          \<longrightarrow> \<not> code_here (last_char None pre') s' c'"
    by blast
  from r(2) obtain g1 g2 where g: "word_boundary (last_char None pre) (first_char s)"
      "code_at s = Some (g1, g2)" "c = g1 @ g2"
    unfolding code_here_iff by blast
  show ?L
  proof (cases "code_search None (str_upper text)")
    case None
    from code_search_None [OF None r(1)] g show ?thesis by simp
  next
    case (Some m)
    from code_search_Some [OF Some] obtain p q where pq: "str_upper text = p @ q"
        "word_boundary (last_char None p) (first_char q)" "code_at q = Some m"
        "\<forall>p' q'. str_upper text = p' @ q' \<and> length p' < length p
            \<longrightarrow> \<not> (word_boundary (last_char None p') (first_char q') \<and> code_at q' \<noteq> None)"
      by blast
    from pq(4) r(1) g have "\<not> length pre < length p" by auto
    moreover have "\<not> length p < length pre"
    proof
      assume "length p < length pre"
      with r(3) pq(1) have "\<not> code_here (last_char None p) q (fst m @ snd m)" by blast
      with pq(2,3) show False unfolding code_here_iff by (cases m) auto
    qed
    ultimately have "length p = length pre" by simp
    with pq(1) r(1) have "p = pre" "q = s" by auto
    with pq(3) g Some show ?thesis by (auto simp add: course_code_entity)
  qed
qed

theorem course_code_first_match_witness:
  "is_ascii ''who teaches cse 411'' \<and> is_ascii ''cse 411'' \<and> is_ascii ''CSE411''
   \<and> is_ascii ''Cse 411''
   \<and> dict_get (extract_entities (demo None :: unit chatbot) ''cse 411'') ''course_code'' = Some ''CSE411''
   \<and> dict_get (extract_entities (demo None :: unit chatbot) ''CSE411'') ''course_code'' = Some ''CSE411''
   \<and> dict_get (extract_entities (demo None :: unit chatbot) ''Cse 411'') ''course_code'' = Some ''CSE411''
   \<and> (\<exists>pre s. str_upper ''who teaches cse 411'' = pre @ s \<and> code_here (last_char None pre) s ''CSE411'')"
proof -
  have a: "is_ascii ''who teaches cse 411''"
    by (simp add: is_ascii_def)
  have a': "is_ascii ''cse 411'' \<and> is_ascii ''CSE411'' \<and> is_ascii ''Cse 411''"
    by (simp add: is_ascii_def)
  have e: "dict_get (extract_entities (demo None :: unit chatbot) ''who teaches cse 411'') ''course_code''
      = Some ''CSE411''"
    by (simp add: course_code_entity str_eval re_eval)
  have i: "dict_get (extract_entities (demo None :: unit chatbot) ''cse 411'') ''course_code'' = Some ''CSE411''
   \<and> dict_get (extract_entities (demo None :: unit chatbot) ''CSE411'') ''course_code'' = Some ''CSE411''
   \<and> dict_get (extract_entities (demo None :: unit chatbot) ''Cse 411'') ''course_code'' = Some ''CSE411''"
    by (simp add: course_code_entity str_eval re_eval)
  from e course_code_first_match [OF a, of "demo None :: unit chatbot" "''CSE411''"]
  have "\<exists>pre s. str_upper ''who teaches cse 411'' = pre @ s \<and> code_here (last_char None pre) s ''CSE411''"
    by blast
  with a a' i show ?thesis by blast
qed

section \<open>Properties of the Graph Index client\<close>

lemma ordinary_return: "ordinary (py_return x)"
  by (simp add: ordinary_def py_return_def)

lemma ordinary_raise: "ordinary (py_raise (Exception msg))"
  by (simp add: ordinary_def py_raise_def)

lemma ordinaryD: "ordinary m \<Longrightarrow> m s = (r, s') \<Longrightarrow> r \<noteq> Inl (BaseException msg)"
  unfolding ordinary_def by (metis fst_conv)

lemma ordinary_bind:
  assumes "ordinary m" and "\<And>x. ordinary (f x)"
  shows "ordinary (py_bind m f)"
  unfolding ordinary_def
proof (intro allI)
  fix s msg
  show "fst (py_bind m f s) \<noteq> Inl (BaseException msg)"
  proof (cases "m s")
    case (Pair r s')
    show ?thesis
    proof (cases r)
      case (Inl e)
      with Pair ordinaryD [OF assms(1) Pair, of msg] show ?thesis
        by (simp add: py_bind_def)
    next
      case (Inr x)
      with Pair assms(2) [of x] show ?thesis
        by (simp add: py_bind_def ordinary_def)
    qed
  qed
qed

lemma ordinary_lift:
  fixes m :: "('a, 'd) py"
  assumes "ordinary m"
  shows "ordinary (lift m)"
  unfolding ordinary_def
proof (intro allI)
  fix s :: "knowledge_graph \<times> 'd" and msg
  obtain k d where s: "s = (k, d)" by (cases s)
  obtain r d' where m: "m d = (r, d')" by (cases "m d")
  from ordinaryD [OF assms m, of msg] s m
  show "fst (lift m s) \<noteq> Inl (BaseException msg)" by (simp add: lift_def)
qed

lemma ordinary_connect:
  fixes n :: "'d neo4j"
  assumes "ordinary_driver n"
  shows "ordinary (connect n)"
  unfolding ordinary_def
proof (intro allI)
  fix s :: "knowledge_graph \<times> 'd" and msg
  obtain k d where s: "s = (k, d)" by (cases s)
  obtain r d' where m: "driver_open n (uri k) (user k) (password k) d = (r, d')"
    by (cases "driver_open n (uri k) (user k) (password k) d")
  from assms have "ordinary (driver_open n (uri k) (user k) (password k))"
    by (simp add: ordinary_driver_def)
  from ordinaryD [OF this m, of msg] s m
  show "fst (connect n s) \<noteq> Inl (BaseException msg)"
    by (cases r) (auto simp: connect_def)
qed

lemma ordinary_session: "ordinary_driver n \<Longrightarrow> ordinary (session n)"
  unfolding session_def
proof (rule ordinary_bind)
  assume d: "ordinary_driver n"
  then have "ordinary (connect n)" by (rule ordinary_connect)
  then show "ordinary (\<lambda>(k, d). if \<not> driver k then connect n (k, d) else (Inr (), k, d))"
    by (auto simp: ordinary_def split: prod.splits)
  fix x :: unit
  from d have "\<And>db. ordinary (lift (session_open n db))"
    by (simp add: ordinary_driver_def ordinary_lift)
  then show "ordinary (\<lambda>(k, d). if truthy (database k) then lift (session_open n (database k)) (k, d)
      else lift (session_open n None) (k, d))"
    by (auto simp: ordinary_def split: prod.splits)
qed

lemma ordinary_with_session:
  assumes "ordinary_driver n" and "ordinary body"
  shows "ordinary (with_session n body)"
  unfolding with_session_def
proof (rule ordinary_bind)
  show "ordinary (session n)" using assms(1) by (rule ordinary_session)
  fix x :: unit
  from assms(1) have c: "ordinary (lift (session_close n))"
    by (simp add: ordinary_driver_def ordinary_lift)
  show "ordinary (\<lambda>s. case body s of
      (r, s') \<Rightarrow> (case lift (session_close n) s' of
         (Inl e, s'') \<Rightarrow> (Inl e, s'') | (Inr _, s'') \<Rightarrow> (r, s'')))"
    unfolding ordinary_def
  proof (intro allI)
    fix s msg
    obtain r s' where b: "body s = (r, s')" by (cases "body s")
    obtain r' s'' where cl: "lift (session_close n) s' = (r', s'')"
      by (cases "lift (session_close n) s'")
    from assms(2) b have "r \<noteq> Inl (BaseException msg)"
      by (rule ordinaryD)
    moreover from c cl have "r' \<noteq> Inl (BaseException msg)"
      by (rule ordinaryD)
    ultimately show "fst (case body s of
      (r, s') \<Rightarrow> (case lift (session_close n) s' of
         (Inl e, s'') \<Rightarrow> (Inl e, s'') | (Inr _, s'') \<Rightarrow> (r, s''))) \<noteq> Inl (BaseException msg)"
      using b cl by (cases r') auto
  qed
qed

lemma ordinary_getitem: "ordinary (getitem r k)"
  by (simp add: getitem_def ordinary_return ordinary_raise split: option.splits)

lemma ordinary_py_map: "(\<And>x. ordinary (f x)) \<Longrightarrow> ordinary (py_map f xs)"
  by (induction xs) (simp_all add: ordinary_return ordinary_bind)

lemma ordinary_run: "ordinary_driver n \<Longrightarrow> ordinary (lift (run n q p))"
  by (simp add: ordinary_driver_def ordinary_lift)

lemma ordinary_consume: "ordinary_driver n \<Longrightarrow> ordinary (lift (consume n))"
  by (simp add: ordinary_driver_def ordinary_lift)

lemma ordinary_single: "ordinary_driver n \<Longrightarrow> ordinary (lift (single n))"
  by (simp add: ordinary_driver_def ordinary_lift)

lemma ordinary_fetch_all: "ordinary_driver n \<Longrightarrow> ordinary (lift (fetch_all n))"
  by (simp add: ordinary_driver_def ordinary_lift)

lemma ordinary_run_each: "ordinary_driver n \<Longrightarrow> ordinary (run_each n stmts)"
  by (induction stmts)
    (simp_all add: ordinary_return ordinary_bind ordinary_run ordinary_consume)

lemma ordinary_health_body: "ordinary_driver n \<Longrightarrow> ordinary (health_body n)"
  unfolding health_body_def
  by (intro ordinary_with_session ordinary_bind ordinary_run ordinary_consume)

lemma ordinary_ensure_constraints_body:
  "ordinary_driver n \<Longrightarrow> ordinary (ensure_constraints_body n)"
  unfolding ensure_constraints_body_def
  by (intro ordinary_with_session ordinary_run_each)

lemma ordinary_upsert_body: "ordinary_driver n \<Longrightarrow> ordinary (upsert_body n record)"
  unfolding upsert_body_def
  by (intro ordinary_with_session ordinary_bind ordinary_run ordinary_consume)

lemma ordinary_summary_body: "ordinary_driver n \<Longrightarrow> ordinary (summary_body n)"
  unfolding summary_body_def
  by (intro ordinary_with_session ordinary_bind ordinary_run ordinary_single)
    (auto split: option.splits intro!: ordinary_bind ordinary_getitem ordinary_return)

lemma ordinary_node_of: "ordinary (node_of row)"
  unfolding node_of_def by (intro ordinary_bind ordinary_getitem ordinary_return)

lemma ordinary_edge_of: "ordinary (edge_of row)"
  unfolding edge_of_def by (intro ordinary_bind ordinary_getitem ordinary_return)

lemma ordinary_export_body: "ordinary_driver n \<Longrightarrow> ordinary (export_body n)"
  unfolding export_body_def
  by (intro ordinary_with_session ordinary_bind ordinary_run ordinary_fetch_all
      ordinary_py_map ordinary_node_of ordinary_edge_of ordinary_return)

lemma ordinary_lookup_body: "ordinary_driver n \<Longrightarrow> ordinary (lookup_body n q p)"
  unfolding lookup_body_def
  by (intro ordinary_with_session ordinary_bind ordinary_run ordinary_fetch_all ordinary_return)

lemma try_except_pair:
  assumes "ordinary body"
  shows "returns_pair (try_except body (\<lambda>exc. py_return (f exc)) s)"
proof (cases "body s")
  case (Pair r s')
  show ?thesis
  proof (cases r)
    case (Inl e)
    with ordinaryD [OF assms Pair] obtain msg where "e = Exception msg"
      by (cases e) auto
    with Pair Inl show ?thesis
      by (simp add: try_except_def returns_pair_def py_return_def)
  next
    case (Inr x)
    with Pair show ?thesis by (simp add: try_except_def returns_pair_def)
  qed
qed

lemma lookup_failure:
  "fst (body s) = Inl (Exception msg) \<Longrightarrow>
   fst (try_except body (\<lambda>exc. py_return ([], Some exc)) s) = Inr ([], Some msg)"
  by (cases "body s") (simp add: try_except_def py_return_def)

lemma ordinary_failure:
  assumes "ordinary body" and "fst (body s) = Inl e"
  shows "\<exists>msg. e = Exception msg"
proof (cases e)
  case (Exception msg)
  then show ?thesis by blast
next
  case (BaseException msg)
  with assms show ?thesis by (simp add: ordinary_def)
qed

lemmas py_eval = py_return_def py_raise_def py_bind_def try_except_def lift_def connect_def
  session_def with_session_def lookup_body_def failing_def unreachable_def interrupted_def
  local_kg_def

lemma ordinary_driver_failing: "ordinary_driver (failing (Exception msg))"
  by (simp add: ordinary_driver_def failing_def ordinary_return ordinary_raise)

text \<open>
  C8, as the claim states it, fails: when the driver raises an exception outside class
  \<open>Exception\<close>, here \<open>KeyboardInterrupt\<close> from the session, \<open>health\<close> returns no pair
  and the exception reaches the caller; and \<open>upsert_course\<close> raises on an argument that
  has no \<open>get\<close> method, since it reads the argument before its \<open>try\<close>.
\<close>

theorem kg_operations_raise_counterexample:
  "fst (kg_health interrupted (local_kg, ())) = Inl (BaseException ''KeyboardInterrupt'')
   \<and> \<not> returns_pair (kg_health interrupted (local_kg, ()))
   \<and> \<not> returns_pair (kg_upsert_course unreachable Py_other (local_kg, ()))"
  by (simp add: kg_health_def health_body_def kg_upsert_course_def returns_pair_def py_eval)

text \<open>
  C8, amended. When the driver raises only exceptions of class \<open>Exception\<close>, whatever
  else it does, each of \<open>health\<close>, \<open>ensure_constraints\<close>, \<open>summary\<close>, \<open>export_graph\<close> and
  the three lookups, and \<open>upsert_course\<close> on a dictionary, returns a pair and raises
  nothing; when anything inside a lookup raises, the lookup returns the empty list
  together with the text of the exception.
\<close>

theorem kg_operations_return_pairs:
  assumes "ordinary_driver n"
  shows "returns_pair (kg_health n s)
   \<and> returns_pair (kg_ensure_constraints n s)
   \<and> returns_pair (kg_upsert_course n (Py_dict record) s)
   \<and> returns_pair (kg_summary_of n s)
   \<and> returns_pair (kg_export_graph n s)
   \<and> returns_pair (kg_get_courses_by_teacher n v s)
   \<and> returns_pair (kg_get_courses_by_dept n v s)
   \<and> returns_pair (kg_get_courses_by_semester n v s)
   \<and> (fst (lookup_body n by_teacher_cypher [(''teacher'', NStr v)] s) = Inl exc
        \<longrightarrow> (\<exists>msg. exc = Exception msg
              \<and> fst (kg_get_courses_by_teacher n v s) = Inr ([], Some msg)))
   \<and> (fst (lookup_body n by_dept_cypher [(''dept'', NStr v)] s) = Inl exc
        \<longrightarrow> (\<exists>msg. exc = Exception msg
              \<and> fst (kg_get_courses_by_dept n v s) = Inr ([], Some msg)))
   \<and> (fst (lookup_body n by_semester_cypher [(''semester'', NStr v)] s) = Inl exc
        \<longrightarrow> (\<exists>msg. exc = Exception msg
              \<and> fst (kg_get_courses_by_semester n v s) = Inr ([], Some msg)))"
proof (intro conjI impI)
  show "returns_pair (kg_health n s)"
    unfolding kg_health_def
    by (intro try_except_pair ordinary_bind ordinary_health_body ordinary_return assms)
  show "returns_pair (kg_ensure_constraints n s)"
    unfolding kg_ensure_constraints_def
    by (intro try_except_pair ordinary_bind ordinary_ensure_constraints_body ordinary_return assms)
  show "returns_pair (kg_upsert_course n (Py_dict record) s)"
    unfolding kg_upsert_course_def pyarg.case
    by (intro try_except_pair ordinary_bind ordinary_upsert_body ordinary_return assms)
  show "returns_pair (kg_summary_of n s)"
    unfolding kg_summary_of_def
    by (intro try_except_pair ordinary_summary_body assms)
  show "returns_pair (kg_export_graph n s)"
    unfolding kg_export_graph_def
    by (intro try_except_pair ordinary_bind ordinary_export_body ordinary_return assms)
  show "returns_pair (kg_get_courses_by_teacher n v s)"
    unfolding kg_get_courses_by_teacher_def
    by (intro try_except_pair ordinary_lookup_body assms)
  show "returns_pair (kg_get_courses_by_dept n v s)"
    unfolding kg_get_courses_by_dept_def
    by (intro try_except_pair ordinary_lookup_body assms)
  show "returns_pair (kg_get_courses_by_semester n v s)"
    unfolding kg_get_courses_by_semester_def
    by (intro try_except_pair ordinary_lookup_body assms)
next
  assume f: "fst (lookup_body n by_teacher_cypher [(''teacher'', NStr v)] s) = Inl exc"
  from ordinary_failure [OF ordinary_lookup_body [OF assms] f]
  obtain msg where "exc = Exception msg" by blast
  with f show "\<exists>msg. exc = Exception msg
      \<and> fst (kg_get_courses_by_teacher n v s) = Inr ([], Some msg)"
    unfolding kg_get_courses_by_teacher_def by (simp add: lookup_failure)
next
  assume f: "fst (lookup_body n by_dept_cypher [(''dept'', NStr v)] s) = Inl exc"
  from ordinary_failure [OF ordinary_lookup_body [OF assms] f]
  obtain msg where "exc = Exception msg" by blast
  with f show "\<exists>msg. exc = Exception msg
      \<and> fst (kg_get_courses_by_dept n v s) = Inr ([], Some msg)"
    unfolding kg_get_courses_by_dept_def by (simp add: lookup_failure)
next
  assume f: "fst (lookup_body n by_semester_cypher [(''semester'', NStr v)] s) = Inl exc"
  from ordinary_failure [OF ordinary_lookup_body [OF assms] f]
  obtain msg where "exc = Exception msg" by blast
  with f show "\<exists>msg. exc = Exception msg
      \<and> fst (kg_get_courses_by_semester n v s) = Inr ([], Some msg)"
    unfolding kg_get_courses_by_semester_def by (simp add: lookup_failure)
qed

theorem kg_operations_return_pairs_witness:
  "ordinary_driver unreachable
   \<and> fst (lookup_body unreachable by_teacher_cypher [(''teacher'', NStr ''Dr. A'')] (local_kg, ()))
     = Inl (Exception ''ServiceUnavailable'')
   \<and> fst (kg_get_courses_by_teacher unreachable ''Dr. A'' (local_kg, ()))
     = Inr ([], Some ''ServiceUnavailable'')
   \<and> returns_pair (kg_upsert_course unreachable (Py_dict (course_dict cse411)) (local_kg, ()))"
proof -
  have d: "ordinary_driver unreachable"
    unfolding unreachable_def by (rule ordinary_driver_failing)
  have b: "fst (lookup_body unreachable by_teacher_cypher [(''teacher'', NStr ''Dr. A'')]
      (local_kg, ())) = Inl (Exception ''ServiceUnavailable'')"
    by (simp add: py_eval)
  note t = kg_operations_return_pairs [OF d, of "(local_kg, ())" "course_dict cse411" "''Dr. A''"
      "Exception ''ServiceUnavailable''"]
  from t have u: "returns_pair (kg_upsert_course unreachable (Py_dict (course_dict cse411))
      (local_kg, ()))"
    by (elim conjE)
  from t b have "\<exists>msg. Exception ''ServiceUnavailable'' = Exception msg
      \<and> fst (kg_get_courses_by_teacher unreachable ''Dr. A'' (local_kg, ())) = Inr ([], Some msg)"
    by (elim conjE) (erule mp)
  then have "fst (kg_get_courses_by_teacher unreachable ''Dr. A'' (local_kg, ()))
         = Inr ([], Some ''ServiceUnavailable'')"
    by simp
  with u have "fst (kg_get_courses_by_teacher unreachable ''Dr. A'' (local_kg, ()))
         = Inr ([], Some ''ServiceUnavailable'')
      \<and> returns_pair (kg_upsert_course unreachable (Py_dict (course_dict cse411)) (local_kg, ()))"
    by simp
  with d b show ?thesis by blast
qed

end
